theory Spec2Isabelle
  imports Main "HOL-Library.Sublist" "HOL-Library.AList"
begin

section \<open>Exceptions and results\<close>

text \<open>
  Both easyblocks are Python classes whose methods mutate the easyblock object and may
  raise. A method is modelled as a function from the object (and from what the calls
  into the parent class, the framework and the operating system answer) to a pair: how
  the method ended (\<open>Inl\<close> the exception that left it, \<open>Inr\<close> the value it returned) and
  the object as the method left it.

  An exception raised by a \<^verbatim>\<open>raise\<close> statement of the two files, or by the Python
  runtime while it evaluates an expression of the two files, has a constructor of its
  own in \<open>error\<close>. An exception raised inside a callee whose code is not in the two
  files (the parent class, the framework, the standard library) is a value of
  \<open>raised\<close>, tagged with the exception class the \<^verbatim>\<open>except\<close> clauses of the files
  tell apart; when nothing catches it, it leaves the method as \<open>Propagated\<close>.
\<close>

datatype raised = EasyBuildErr string | OSErr string | OtherErr string

datatype error =
    EasyBuildError string
  | AttributeError string
  | IndexError string
  | KeyError string
  | UnboundLocalError string
  | Propagated raised

definition propagate :: "(raised + 'r) \<times> 'obj \<Rightarrow> (error + 'r) \<times> 'obj" where
  "propagate x = (case x of (Inl e, obj) \<Rightarrow> (Inl (Propagated e), obj)
                  | (Inr r, obj) \<Rightarrow> (Inr r, obj))"

section \<open>Python strings and paths\<close>

text \<open>
  Truth value and f-string rendering of a value that is \<^verbatim>\<open>None\<close> or a string, as
  \<^verbatim>\<open>get_software_root\<close> and \<^verbatim>\<open>os.getenv\<close> return it.
\<close>

fun truthy :: "string option \<Rightarrow> bool" where
  "truthy None = False"
| "truthy (Some s) = (s \<noteq> [])"

fun fstr :: "string option \<Rightarrow> string" where
  "fstr None = ''None''"
| "fstr (Some s) = s"

definition sq :: char where
  "sq = CHR 0x27"

definition nl :: char where
  "nl = CHR 0x0A"

definition sep :: char where
  "sep = CHR ''/''"

text \<open>\<^verbatim>\<open>nl.join(lines)\<close>\<close>

fun join_lines :: "string list \<Rightarrow> string" where
  "join_lines [] = []"
| "join_lines [l] = l"
| "join_lines (l # ls) = l @ [nl] @ join_lines ls"

text \<open>\<^verbatim>\<open>s.split(c)\<close> for a one-character separator: never an empty list.\<close>

fun split_on :: "char \<Rightarrow> string \<Rightarrow> string list" where
  "split_on c [] = [[]]"
| "split_on c (x # xs) =
     (if x = c then [] # split_on c xs
      else (case split_on c xs of [] \<Rightarrow> [[x]] | w # ws \<Rightarrow> (x # w) # ws))"

text \<open>
  \<^verbatim>\<open>os.path.join(a, *p)\<close> of \<^verbatim>\<open>posixpath\<close>: a component that starts with the separator
  replaces what was joined so far; otherwise it is appended, after a separator unless the
  path so far is empty or ends with one.
\<close>

definition join_step :: "string \<Rightarrow> string \<Rightarrow> string" where
  "join_step path b =
     (if b \<noteq> [] \<and> hd b = sep then b
      else if path = [] \<or> last path = sep then path @ b
      else path @ [sep] @ b)"

definition os_path_join :: "string \<Rightarrow> string list \<Rightarrow> string" where
  "os_path_join a p = foldl join_step a p"

text \<open>
  \<^verbatim>\<open>os.path.dirname(p)\<close> of \<^verbatim>\<open>posixpath\<close>: \<open>head\<close> is \<^verbatim>\<open>p[:p.rfind(sep) + 1]\<close>, the
  path up to and with its last separator (empty when it has none); trailing separators
  are stripped from it unless it consists of separators only.
\<close>

definition rstrip_sep :: "string \<Rightarrow> string" where
  "rstrip_sep s = rev (dropWhile (\<lambda>c. c = sep) (rev s))"

definition os_path_dirname :: "string \<Rightarrow> string" where
  "os_path_dirname p =
     (let head = rev (dropWhile (\<lambda>c. c \<noteq> sep) (rev p))
      in if head \<noteq> [] \<and> head \<noteq> replicate (length head) sep then rstrip_sep head else head)"

text \<open>The decimal digits of a number, as the format \<^verbatim>\<open>{i:d}\<close> prints an integer.\<close>

fun digits :: "nat \<Rightarrow> string" where
  "digits n =
     (if n < 10 then [char_of (48 + n)] else digits (n div 10) @ [char_of (48 + n mod 10)])"

declare digits.simps [simp del]

definition format_d :: "int \<Rightarrow> string" where
  "format_d i = (if i < 0 then CHR ''-'' # digits (nat (- i)) else digits (nat i))"

section \<open>Regular expressions\<close>

text \<open>
  The patterns of the two files use single characters, the class \<^verbatim>\<open>\s\<close>, the dot,
  the quantifiers \<^verbatim>\<open>*\<close> and \<^verbatim>\<open>+\<close> on a single atom, and the anchor \<^verbatim>\<open>^\<close>
  under \<^verbatim>\<open>re.M\<close>. A compiled pattern is the list of its tokens.
  \<open>re_match_here p prev s\<close> holds when the pattern matches a prefix of \<open>s\<close>, \<open>prev\<close>
  being the character just before \<open>s\<close> in the searched string (\<open>None\<close> at its start);
  \<open>re_search\<close> is \<^verbatim>\<open>pattern.search(s)\<close> seen as a truth value: some position of the
  string starts a match.

  A string is a list of 8-bit characters; \<^verbatim>\<open>\s\<close> is Python's white space among them.
\<close>

datatype re_atom = Chr char | Space | Dot

datatype re_quant = One | Star | Plus

datatype re_tok = Bol | Item re_atom re_quant

definition isspace :: "char \<Rightarrow> bool" where
  "isspace c = ((of_char c :: nat) \<in> {9, 10, 11, 12, 13, 28, 29, 30, 31, 32, 133, 160})"

fun atom_ok :: "re_atom \<Rightarrow> char \<Rightarrow> bool" where
  "atom_ok (Chr a) c = (c = a)"
| "atom_ok Space c = isspace c"
| "atom_ok Dot c = (c \<noteq> nl)"

fun re_match_here :: "re_tok list \<Rightarrow> char option \<Rightarrow> string \<Rightarrow> bool" where
  "re_match_here [] prev s = True"
| "re_match_here (Bol # r) prev s =
     ((prev = None \<or> prev = Some nl) \<and> re_match_here r prev s)"
| "re_match_here (Item a One # r) prev s =
     (case s of [] \<Rightarrow> False | c # cs \<Rightarrow> atom_ok a c \<and> re_match_here r (Some c) cs)"
| "re_match_here (Item a Star # r) prev s =
     (re_match_here r prev s \<or>
      (case s of [] \<Rightarrow> False
       | c # cs \<Rightarrow> atom_ok a c \<and> re_match_here (Item a Star # r) (Some c) cs))"
| "re_match_here (Item a Plus # r) prev s =
     (case s of [] \<Rightarrow> False
      | c # cs \<Rightarrow> atom_ok a c \<and> re_match_here (Item a Star # r) (Some c) cs)"

fun re_search_from :: "re_tok list \<Rightarrow> char option \<Rightarrow> string \<Rightarrow> bool" where
  "re_search_from p prev [] = re_match_here p prev []"
| "re_search_from p prev (c # cs) =
     (re_match_here p prev (c # cs) \<or> re_search_from p (Some c) cs)"

definition re_search :: "re_tok list \<Rightarrow> string \<Rightarrow> bool" where
  "re_search p s = re_search_from p None s"

text \<open>A pattern text without special characters: each character stands for itself.\<close>

definition re_literal :: "string \<Rightarrow> re_tok list" where
  "re_literal s = map (\<lambda>c. Item (Chr c) One) s"

text \<open>
  What a pattern denotes, in the usual reading of regular expressions: \<open>re_denotes p prev m\<close>
  holds when the whole string \<open>m\<close> is a concatenation of words, one for each token of
  \<open>p\<close>, the word of an atom being made of characters of the atom and having the length
  its quantifier allows, and the anchor standing where the character before is a
  newline or missing. \<open>last_char prev w\<close> is the character before what follows \<open>w\<close>.
\<close>

definition last_char :: "char option \<Rightarrow> string \<Rightarrow> char option" where
  "last_char prev w = (if w = [] then prev else Some (last w))"

fun quant_ok :: "re_quant \<Rightarrow> string \<Rightarrow> bool" where
  "quant_ok One w = (length w = 1)"
| "quant_ok Star w = True"
| "quant_ok Plus w = (w \<noteq> [])"

fun re_denotes :: "re_tok list \<Rightarrow> char option \<Rightarrow> string \<Rightarrow> bool" where
  "re_denotes [] prev m = (m = [])"
| "re_denotes (Bol # r) prev m = ((prev = None \<or> prev = Some nl) \<and> re_denotes r prev m)"
| "re_denotes (Item a q # r) prev m =
     (\<exists>w m'. m = w @ m' \<and> list_all (atom_ok a) w \<and> quant_ok q w \<and>
        re_denotes r (last_char prev w) m')"

section \<open>EB_NEURON\<close>

subsection \<open>The easyblock object\<close>

text \<open>
  \<^verbatim>\<open>self.cfg\<close> holds the easyconfig parameters the class reads and writes. The
  framework's \<^verbatim>\<open>cfg.update(key, value)\<close> appends \<open>value\<close> to the parameter;
  \<open>configopts\<close> is kept as the sequence of the appended values.
  \<open>module_load_environment\<close> maps the name of a search-path variable to its list of
  paths.
\<close>

record neuron_cfg =
  paranrn :: bool
  configopts :: "string list"
  parallel :: int
  start_dir :: string

record neuron =
  cfg :: neuron_cfg
  version :: string
  installdir :: string
  with_python :: bool
  pylibdir :: string
  module_load_environment :: "string \<rightharpoonup> string list"

definition cfg_update_configopts :: "string \<Rightarrow> neuron \<Rightarrow> neuron" where
  "cfg_update_configopts v self =
     self\<lparr>cfg := (cfg self)\<lparr>configopts := configopts (cfg self) @ [v]\<rparr>\<rparr>"

text \<open>
  \<^verbatim>\<open>EB_NEURON.__init__\<close>, applied to the object as \<^verbatim>\<open>CMakeMake.__init__\<close> built it.
\<close>

definition EB_NEURON_init :: "neuron \<Rightarrow> neuron" where
  "EB_NEURON_init self = self\<lparr>with_python := False, pylibdir := ''UNKNOWN''\<rparr>"

subsection \<open>configure_step\<close>

text \<open>
  \<open>CMakeMake_configure_step\<close> is the parent's method, \<open>get_software_root\<close> maps the name
  of a dependency to its installation prefix (\<^verbatim>\<open>None\<close> when it is not loaded), and
  \<open>det_pylibdir\<close> is what the call \<^verbatim>\<open>det_pylibdir()\<close> answers.
\<close>

definition EB_NEURON_configure_step ::
  "(neuron \<Rightarrow> (raised + unit) \<times> neuron) \<Rightarrow> (string \<rightharpoonup> string) \<Rightarrow> raised + string \<Rightarrow>
   neuron \<Rightarrow> (error + unit) \<times> neuron" where
  "EB_NEURON_configure_step CMakeMake_configure_step get_software_root det_pylibdir self =
    (let self = (if paranrn (cfg self)
                 then cfg_update_configopts ''-DNRN_ENABLE_MPI=ON'' self
                 else cfg_update_configopts ''-DNRN_ENABLE_MPI=OFF'' self);
         interviews_root = get_software_root ''InterViews'';
         self = (if truthy interviews_root
                 then cfg_update_configopts
                        (''-DIV_DIR='' @ fstr interviews_root @ '' -DNRN_ENABLE_INTERVIEWS=ON'') self
                 else cfg_update_configopts ''-DNRN_ENABLE_INTERVIEWS=OFF'' self);
         python_root = get_software_root ''Python'';
         self = (if truthy python_root
                 then cfg_update_configopts
                        (''-DNRN_ENABLE_MODULE_INSTALL=ON '' @
                         ''-DNRN_MODULE_INSTALL_OPTIONS='' @ [sq] @ ''--prefix='' @
                         installdir self @ [sq])
                        (cfg_update_configopts
                           (''-DNRN_ENABLE_PYTHON=ON -DPYTHON_EXECUTABLE='' @ fstr python_root @
                            ''/bin/python'')
                           (self\<lparr>with_python := True\<rparr>))
                 else cfg_update_configopts ''-DNRN_ENABLE_PYTHON=OFF'' self)
     in case det_pylibdir of
          Inl e \<Rightarrow> (Inl (Propagated e), self)
        | Inr d \<Rightarrow> propagate (CMakeMake_configure_step (self\<lparr>pylibdir := d\<rparr>)))"

subsection \<open>make_module_step and make_module_extra\<close>

text \<open>
  \<open>LooseVersion_lt a b\<close> is the framework's comparison
  \<^verbatim>\<open>LooseVersion(a) < LooseVersion(b)\<close>; \<open>CMakeMake_make_module_step\<close> is the parent's
  method.
\<close>

definition EB_NEURON_make_module_step ::
  "(neuron \<Rightarrow> (raised + 'r) \<times> neuron) \<Rightarrow> (string \<Rightarrow> string \<Rightarrow> bool) \<Rightarrow>
   neuron \<Rightarrow> (error + 'r) \<times> neuron" where
  "EB_NEURON_make_module_step CMakeMake_make_module_step LooseVersion_lt self =
    (let self =
       (if with_python self
        then (if LooseVersion_lt (version self) ''8''
              then self\<lparr>module_load_environment := (module_load_environment self)
                     (''PYTHONPATH'' \<mapsto> [os_path_join ''lib'' [''python*'', ''site-packages'']])\<rparr>
              else self\<lparr>module_load_environment := (module_load_environment self)
                     (''PYTHONPATH'' \<mapsto> [os_path_join ''lib'' [''python'']])\<rparr>)
        else self)
     in propagate (CMakeMake_make_module_step self))"

text \<open>
  The loop of \<open>make_module_extra\<close> over the names of the compiler variables: \<open>getenv\<close>
  is the process environment, \<open>set_environment\<close> the module generator's method.
\<close>

fun add_compiler_vars ::
  "(string \<rightharpoonup> string) \<Rightarrow> (string \<Rightarrow> string \<Rightarrow> string) \<Rightarrow> string list \<Rightarrow> string \<Rightarrow> string" where
  "add_compiler_vars getenv set_environment [] txt = txt"
| "add_compiler_vars getenv set_environment (var # vars) txt =
     (case getenv var of
        None \<Rightarrow> add_compiler_vars getenv set_environment vars txt
      | Some val \<Rightarrow>
          if val \<noteq> []
          then add_compiler_vars getenv set_environment vars (txt @ set_environment var val)
          else add_compiler_vars getenv set_environment vars txt)"

definition EB_NEURON_make_module_extra ::
  "(neuron \<Rightarrow> raised + string) \<Rightarrow> (string \<rightharpoonup> string) \<Rightarrow> (string \<Rightarrow> string \<Rightarrow> string) \<Rightarrow>
   neuron \<Rightarrow> error + string" where
  "EB_NEURON_make_module_extra CMakeMake_make_module_extra getenv set_environment self =
    (case CMakeMake_make_module_extra self of
       Inl e \<Rightarrow> Inl (Propagated e)
     | Inr txt \<Rightarrow>
         Inr (add_compiler_vars getenv set_environment
                [''CC'', ''CXX'', ''MPICC'', ''MPICXX'', ''MPICH_CC'', ''MPICH_CXX''] txt))"

subsection \<open>sanity_check_step\<close>

text \<open>
  What the sanity check asks of its surroundings: the parent's \<open>sanity_check_step\<close>, the
  loading and cleaning up of the fake module, the execution of a shell command (on a
  command line and an optional standard input it answers an exit code and the captured
  output), the build option \<open>mpi_tests\<close>, the working directory and the toolchain's
  \<open>mpi_cmd_for\<close>. The check returns, with its result, the trace of the commands it ran
  and the directory changes it made.
\<close>

record custom_paths =
  files :: "string list"
  dirs :: "string list"

record shell_result =
  exit_code :: int
  cmd_output :: string

datatype event = RunShellCmd string "string option" | Chdir string

record 'f sanity_env =
  get_shared_lib_ext :: string
  CMakeMake_sanity_check_step :: "custom_paths \<Rightarrow> neuron \<Rightarrow> (raised + unit) \<times> neuron"
  load_fake_module :: "raised + 'f"
  clean_up_fake_module :: "'f \<Rightarrow> raised option"
  shell :: "string \<Rightarrow> string option \<Rightarrow> shell_result"
  mpi_tests :: bool
  getcwd :: "raised + string"
  chdir :: "string \<Rightarrow> raised option"
  mpi_cmd_for :: "string \<Rightarrow> int \<Rightarrow> raised + string"

type_synonym check = "error option \<times> event list"

text \<open>Statements in sequence: the second runs when the first did not raise.\<close>

definition and_then :: "check \<Rightarrow> check \<Rightarrow> check" where
  "and_then a b =
     (case a of (Some e, t) \<Rightarrow> (Some e, t)
      | (None, t) \<Rightarrow> (fst b, t @ snd b))"

text \<open>
  The framework's \<^verbatim>\<open>run_shell_cmd(cmd, stdin=..., fail_on_error=...)\<close>: with
  \<open>fail_on_error\<close> a non-zero exit code raises.
\<close>

definition run_shell_cmd ::
  "(string \<Rightarrow> string option \<Rightarrow> shell_result) \<Rightarrow> string \<Rightarrow> string option \<Rightarrow> bool \<Rightarrow>
   raised + shell_result" where
  "run_shell_cmd sh cmd stdin fail_on_error =
     (let res = sh cmd stdin
      in if fail_on_error \<and> exit_code res \<noteq> 0 then Inl (OtherErr ''RunShellCmdError'')
         else Inr res)"

definition sanity_custom_paths ::
  "(string \<Rightarrow> string \<Rightarrow> bool) \<Rightarrow> string \<Rightarrow> neuron \<Rightarrow> custom_paths" where
  "sanity_custom_paths LooseVersion_lt shlib_ext self =
    (let binaries = [''mkthreadsafe'', ''modlunit'', ''neurondemo'', ''nocmodl'', ''nrngui'',
                     ''nrniv'', ''nrnivmodl'', ''nrnmech_makefile'', ''nrnpyenv.sh'',
                     ''set_nrnpyenv.sh'', ''sortspike''];
         libs = [''nrniv'', ''rxdmath''];
         sanity_check_dirs = [''include'', ''share/nrn''];
         sanity_check_dirs =
           (if with_python self
            then sanity_check_dirs @ [os_path_join ''lib'' [''python'']] @
                 (if LooseVersion_lt (version self) ''8''
                  then [os_path_join ''lib'' [''python%(pyshortver)s'', ''site-packages'']]
                  else [])
            else sanity_check_dirs);
         sanity_check_files = map (\<lambda>x. os_path_join ''bin'' [x]) binaries;
         sanity_check_files =
           sanity_check_files @ map (\<lambda>soname. ''lib/lib'' @ soname @ ''.'' @ shlib_ext) libs
     in \<lparr>files = sanity_check_files, dirs = sanity_check_dirs\<rparr>)"

text \<open>
  \<^verbatim>\<open>try: fake_mod_data = self.load_fake_module()\<close> with its \<^verbatim>\<open>except EasyBuildError\<close>:
  after a caught exception the variable is unbound (\<open>None\<close>).
\<close>

definition try_load_fake_module :: "raised + 'f \<Rightarrow> raised + 'f option" where
  "try_load_fake_module r =
     (case r of
        Inl e \<Rightarrow> (case e of EasyBuildErr m \<Rightarrow> Inr None | OSErr m \<Rightarrow> Inl e | OtherErr m \<Rightarrow> Inl e)
      | Inr d \<Rightarrow> Inr (Some d))"

text \<open>The test of the NEURON demo.\<close>

definition demo_input :: string where
  "demo_input = join_lines
     [''demo(3) // load the pyramidal cell model.'',
      ''init()  // initialise the model'',
      ''t       // should be zero'',
      ''soma.v  // will print -65'',
      ''run()   // run the simulation'',
      ''t       // should be 5, indicating that 5ms were simulated'',
      ''soma.v  // will print a value other than -65, indicating that the simulation was executed'',
      ''quit()'']"

text \<open>The pattern \<^verbatim>\<open>^\s+-65\s*\n\s+5\s*\n\s+-68.134337\<close>, compiled with \<^verbatim>\<open>re.M\<close>.\<close>

definition demo_regexp :: "re_tok list" where
  "demo_regexp =
     [Bol, Item Space Plus] @ re_literal ''-65'' @
     [Item Space Star, Item (Chr nl) One, Item Space Plus] @ re_literal ''5'' @
     [Item Space Star, Item (Chr nl) One, Item Space Plus] @ re_literal ''-68'' @
     [Item Dot One] @ re_literal ''134337''"

definition neurondemo_test :: "(string \<Rightarrow> string option \<Rightarrow> shell_result) \<Rightarrow> check" where
  "neurondemo_test sh =
     (case run_shell_cmd sh ''neurondemo'' (Some demo_input) False of
        Inl e \<Rightarrow> (Some (Propagated e), [RunShellCmd ''neurondemo'' (Some demo_input)])
      | Inr res \<Rightarrow>
          (if exit_code res \<noteq> 0 \<or> \<not> re_search demo_regexp (cmd_output res)
           then Some (EasyBuildError ''Validation of NEURON demo run failed.'')
           else None,
           [RunShellCmd ''neurondemo'' (Some demo_input)]))"

text \<open>
  The parallel hello world. The loop over \<^verbatim>\<open>range(0, nproc)\<close> stops at the first
  rank whose line is missing.
\<close>

function hello_ranks_valid :: "int \<Rightarrow> int \<Rightarrow> string \<Rightarrow> bool" where
  "hello_ranks_valid i nproc out =
     (if i < nproc
      then (if \<not> re_search (re_literal (''I am '' @ format_d i @ '' of '' @ format_d nproc)) out
            then False
            else hello_ranks_valid (i + 1) nproc out)
      else True)"
  by pat_completeness auto
termination
  by (relation "measure (\<lambda>(i, nproc, out). nat (nproc - i))") auto

declare hello_ranks_valid.simps [simp del]

text \<open>\<^verbatim>\<open>except OSError as err: raise EasyBuildError(...)\<close> around the parallel run.\<close>

definition except_OSError :: "raised \<Rightarrow> error" where
  "except_OSError e =
     (case e of
        OSErr m \<Rightarrow> EasyBuildError (''Failed to run parallel hello world: '' @ m)
      | EasyBuildErr m \<Rightarrow> Propagated e
      | OtherErr m \<Rightarrow> Propagated e)"

definition parallel_hello_test :: "'f sanity_env \<Rightarrow> neuron \<Rightarrow> check" where
  "parallel_hello_test env self =
    (if mpi_tests env
     then
       (let nproc = parallel (cfg self)
        in case getcwd env of
             Inl e \<Rightarrow> (Some (except_OSError e), [])
           | Inr cwd \<Rightarrow>
               (let d = os_path_join (start_dir (cfg self)) [''src'', ''parallel'']
                in case chdir env d of
                     Some e \<Rightarrow> (Some (except_OSError e), [Chdir d])
                   | None \<Rightarrow>
                       (case mpi_cmd_for env ''nrniv -mpi test0.hoc'' nproc of
                          Inl e \<Rightarrow> (Some (except_OSError e), [Chdir d])
                        | Inr cmd \<Rightarrow>
                            (case run_shell_cmd (shell env) cmd None False of
                               Inl e \<Rightarrow> (Some (except_OSError e), [Chdir d, RunShellCmd cmd None])
                             | Inr res \<Rightarrow>
                                 (case chdir env cwd of
                                    Some e \<Rightarrow>
                                      (Some (except_OSError e),
                                       [Chdir d, RunShellCmd cmd None, Chdir cwd])
                                  | None \<Rightarrow>
                                      (if exit_code res \<noteq> 0 \<or>
                                          \<not> hello_ranks_valid 0 nproc (cmd_output res)
                                       then Some (EasyBuildError
                                              ''Validation of parallel hello world run failed.'')
                                       else None,
                                       [Chdir d, RunShellCmd cmd None, Chdir cwd]))))))
     else (None, []))"

definition python_test :: "(string \<Rightarrow> string option \<Rightarrow> shell_result) \<Rightarrow> neuron \<Rightarrow> check" where
  "python_test sh self =
    (if with_python self
     then (let cmd = ''python -c '' @ [sq] @ ''import neuron; neuron.test()'' @ [sq]
           in case run_shell_cmd sh cmd None True of
                Inl e \<Rightarrow> (Some (Propagated e), [RunShellCmd cmd None])
              | Inr res \<Rightarrow> (None, [RunShellCmd cmd None]))
     else (None, []))"

definition cleanup :: "'f sanity_env \<Rightarrow> 'f option \<Rightarrow> check" where
  "cleanup env fake_mod_data =
    (case fake_mod_data of
       None \<Rightarrow> (Some (UnboundLocalError ''fake_mod_data''), [])
     | Some d \<Rightarrow> (map_option Propagated (clean_up_fake_module env d), []))"

definition EB_NEURON_sanity_check_step ::
  "'f sanity_env \<Rightarrow> (string \<Rightarrow> string \<Rightarrow> bool) \<Rightarrow> neuron \<Rightarrow> check" where
  "EB_NEURON_sanity_check_step env LooseVersion_lt self =
    (let shlib_ext = get_shared_lib_ext env;
         custom_paths = sanity_custom_paths LooseVersion_lt shlib_ext self
     in case CMakeMake_sanity_check_step env custom_paths self of
          (Inl e, self) \<Rightarrow> (Some (Propagated e), [])
        | (Inr u, self) \<Rightarrow>
            (case try_load_fake_module (load_fake_module env) of
               Inl e \<Rightarrow> (Some (Propagated e), [])
             | Inr fake_mod_data \<Rightarrow>
                 and_then (neurondemo_test (shell env))
                   (and_then (parallel_hello_test env self)
                      (and_then (python_test (shell env) self)
                         (cleanup env fake_mod_data)))))"

section \<open>JuliaBundle\<close>

subsection \<open>The easyblock object\<close>

text \<open>
  Values of easyconfig parameters. \<open>self.cfg\<close> is read with templating disabled, so a
  parameter is the value as stored. The three parameters that \<open>__init__\<close> writes have
  fields of their own, \<open>exts_default_options\<close> being a dictionary as the framework
  declares it; \<open>params\<close> holds every other parameter of the easyconfig.
  \<open>julia_project_toml\<close> and \<open>julia_project_env\<close> are the attributes that \<open>prepare_step\<close>
  sets: \<open>None\<close> as long as the object has no such attribute.
\<close>

datatype pyval =
    PyNone
  | PyBool bool
  | PyInt int
  | PyStr string
  | PyList "pyval list"
  | PyTuple "pyval list"
  | PyDict "(string \<times> pyval) list"

record julia_cfg =
  exts_defaultclass :: pyval
  exts_filter :: pyval
  exts_default_options :: "(string \<times> pyval) list"
  params :: "string \<rightharpoonup> pyval"

record juliabundle =
  jcfg :: julia_cfg
  jname :: string
  jinstalldir :: string
  julia_project_toml :: "string option"
  julia_project_env :: "string option"

text \<open>\<^verbatim>\<open>self.cfg[key]\<close>: \<open>None\<close> when the easyconfig has no such parameter.\<close>

definition cfg_get :: "julia_cfg \<Rightarrow> string \<Rightarrow> pyval option" where
  "cfg_get c key =
     (if key = ''exts_defaultclass'' then Some (exts_defaultclass c)
      else if key = ''exts_filter'' then Some (exts_filter c)
      else if key = ''exts_default_options'' then Some (PyDict (exts_default_options c))
      else params c key)"

subsection \<open>__init__\<close>

text \<open>
  The loop over the keys of \<^verbatim>\<open>JuliaPackage.extra_options()\<close>. Reading a parameter the
  easyconfig does not have raises in the framework.
\<close>

fun set_default_options :: "string list \<Rightarrow> julia_cfg \<Rightarrow> (error + unit) \<times> julia_cfg" where
  "set_default_options [] c = (Inr (), c)"
| "set_default_options (key # keys) c =
     (if map_of (exts_default_options c) key = None
      then (case cfg_get c key of
              None \<Rightarrow> (Inl (Propagated (EasyBuildErr key)), c)
            | Some v \<Rightarrow>
                set_default_options keys
                  (c\<lparr>exts_default_options := AList.update key v (exts_default_options c)\<rparr>))
      else set_default_options keys c)"

definition default_sources :: pyval where
  "default_sources =
     PyList [PyDict [(''download_filename'', PyStr ''v%(version)s.tar.gz''),
                     (''filename'', PyStr ''%(name)s-%(version)s.tar.gz'')]]"

text \<open>
  \<open>JuliaBundle.__init__\<close>, applied to the object as \<open>Bundle.__init__\<close> built it.
  \<open>EXTS_FILTER_JULIA_PACKAGES\<close> is the constant of that name and \<open>jlpkg_keys\<close> the keys
  of \<^verbatim>\<open>JuliaPackage.extra_options()\<close>, both of the module \<open>juliapackage\<close>.
\<close>

definition JuliaBundle_init ::
  "pyval \<Rightarrow> string list \<Rightarrow> juliabundle \<Rightarrow> (error + unit) \<times> juliabundle" where
  "JuliaBundle_init EXTS_FILTER_JULIA_PACKAGES jlpkg_keys self =
    (let c = (jcfg self)\<lparr>exts_defaultclass := PyStr ''JuliaPackage''\<rparr>;
         c = c\<lparr>exts_filter := EXTS_FILTER_JULIA_PACKAGES\<rparr>
     in case set_default_options jlpkg_keys c of
          (Inl e, c) \<Rightarrow> (Inl e, self\<lparr>jcfg := c\<rparr>)
        | (Inr u, c) \<Rightarrow>
            (let c = (if map_of (exts_default_options c) ''sources'' = None
                      then c\<lparr>exts_default_options :=
                             AList.update ''sources'' default_sources (exts_default_options c)\<rparr>
                      else c)
             in (Inr (), self\<lparr>jcfg := c\<rparr>)))"

subsection \<open>prepare_step\<close>

text \<open>
  \<open>Bundle_prepare_step\<close> is the parent's method; \<open>get_software_root\<close> and
  \<open>get_software_version\<close> map the name of a dependency to its installation prefix and
  to its version (\<^verbatim>\<open>None\<close> when the variable of the module is not set); \<open>mkdir\<close>
  is the framework's \<^verbatim>\<open>mkdir(path, parents=True)\<close>. The result carries the list of
  the directories \<open>mkdir\<close> was called on.
\<close>

definition JuliaBundle_prepare_step ::
  "(juliabundle \<Rightarrow> (raised + unit) \<times> juliabundle) \<Rightarrow> (string \<rightharpoonup> string) \<Rightarrow>
   (string \<rightharpoonup> string) \<Rightarrow> (string \<Rightarrow> raised option) \<Rightarrow> juliabundle \<Rightarrow>
   ((error + unit) \<times> juliabundle) \<times> string list" where
  "JuliaBundle_prepare_step Bundle_prepare_step get_software_root get_software_version mkdir self =
    (case Bundle_prepare_step self of
       (Inl e, self) \<Rightarrow> ((Inl (Propagated e), self), [])
     | (Inr u, self) \<Rightarrow>
         if get_software_root ''Julia'' = None
         then ((Inl (EasyBuildError ''Julia not included as dependency!''), self), [])
         else
           (case get_software_version ''Julia'' of
              None \<Rightarrow> ((Inl (AttributeError ''split''), self), [])
            | Some v \<Rightarrow>
                (case take 2 (split_on CHR ''.'' v) of
                   [major, minor] \<Rightarrow>
                     (let julia_env_dir = ''v'' @ major @ ''.'' @ minor;
                          toml = os_path_join ''environments'' [julia_env_dir, ''Project.toml''];
                          self = self\<lparr>julia_project_toml := Some toml\<rparr>;
                          env = os_path_dirname (os_path_join (jinstalldir self) [toml]);
                          self = self\<lparr>julia_project_env := Some env\<rparr>
                      in (case mkdir env of
                            Some e \<Rightarrow> ((Inl (Propagated e), self), [env])
                          | None \<Rightarrow> ((Inr (), self), [env])))
                 | _ \<Rightarrow> ((Inl (IndexError ''Replacement index 1 out of range''), self), []))))"

subsection \<open>make_module_extra and sanity_check_step\<close>

text \<open>
  \<open>Bundle_make_module_extra\<close> is the parent's method, \<open>SYNTAX\<close> the attribute of the
  module generator, \<open>JULIA_PATHS_SOFT_INIT\<close> the dictionary of that name of the module
  \<open>juliapackage\<close>, and \<open>append_paths\<close> the module generator's method. The variable \<open>modtxt\<close> is the
  \<^verbatim>\<open>mod\<close> of the source.
\<close>

definition JuliaBundle_make_module_extra ::
  "(juliabundle \<Rightarrow> raised + string) \<Rightarrow> string option \<Rightarrow> (string \<rightharpoonup> string) \<Rightarrow>
   (string \<Rightarrow> string list \<Rightarrow> raised + string) \<Rightarrow> juliabundle \<Rightarrow> error + string" where
  "JuliaBundle_make_module_extra Bundle_make_module_extra SYNTAX JULIA_PATHS_SOFT_INIT
     append_paths self =
    (case Bundle_make_module_extra self of
       Inl e \<Rightarrow> Inl (Propagated e)
     | Inr modtxt \<Rightarrow>
         (case (if truthy SYNTAX
                then (case JULIA_PATHS_SOFT_INIT (fstr SYNTAX) of
                        None \<Rightarrow> Inl (KeyError (fstr SYNTAX))
                      | Some snippet \<Rightarrow> Inr (modtxt @ snippet))
                else Inr modtxt) of
            Inl e \<Rightarrow> Inl e
          | Inr modtxt \<Rightarrow>
              (case append_paths ''JULIA_DEPOT_PATH'' [''''] of
                 Inl e \<Rightarrow> Inl (Propagated e)
               | Inr depot \<Rightarrow>
                   (let modtxt = modtxt @ depot
                    in case julia_project_toml self of
                         None \<Rightarrow> Inl (AttributeError ''julia_project_toml'')
                       | Some toml \<Rightarrow>
                           (case append_paths ''JULIA_LOAD_PATH'' [toml] of
                              Inl e \<Rightarrow> Inl (Propagated e)
                            | Inr load \<Rightarrow> Inr (modtxt @ load))))))"

text \<open>
  \<open>sanity_check_step\<close> hands the custom paths to the parent's \<open>sanity_check_step\<close>.
\<close>

definition JuliaBundle_sanity_check_step ::
  "(custom_paths \<Rightarrow> juliabundle \<Rightarrow> (raised + unit) \<times> juliabundle) \<Rightarrow> juliabundle \<Rightarrow>
   (error + unit) \<times> juliabundle" where
  "JuliaBundle_sanity_check_step Bundle_sanity_check_step self =
    (let custom_paths = \<lparr>files = [], dirs = [os_path_join ''packages'' [jname self]]\<rparr>
     in propagate (Bundle_sanity_check_step custom_paths self))"

section \<open>The methods the two classes define\<close>

text \<open>
  A Python class body binds names; looking a method up on the class gives the binding of
  the class body when it has one for the name, and otherwise what the lookup on the
  parent class gives (both classes have a single parent: \<open>CMakeMake\<close> for \<open>EB_NEURON\<close>,
  \<open>Bundle\<close> for \<open>JuliaBundle\<close>). A class is modelled by the list of the method names
  its body binds, in the order of the \<^verbatim>\<open>def\<close> statements of the file; \<open>own\<close> gives the
  methods the class body binds and \<open>parent\<close> the methods found on the parent class.
\<close>

definition EB_NEURON_defines :: "string list" where
  "EB_NEURON_defines =
     [''extra_options'', ''__init__'', ''configure_step'', ''sanity_check_step'',
      ''make_module_step'', ''make_module_extra'']"

definition JuliaBundle_defines :: "string list" where
  "JuliaBundle_defines =
     [''extra_options'', ''__init__'', ''prepare_step'', ''make_module_extra'',
      ''sanity_check_step'']"

definition lookup_method ::
  "string list \<Rightarrow> (string \<Rightarrow> 'm) \<Rightarrow> (string \<Rightarrow> 'm) \<Rightarrow> string \<Rightarrow> 'm" where
  "lookup_method defines own parent name =
     (if name \<in> set defines then own name else parent name)"

section \<open>Auxiliary notions for the proofs\<close>

text \<open>What \<open>os.path.join\<close> puts before a relative component: the path so far, with a
  separator unless it is empty or ends with one.\<close>

definition join_prefix :: "string \<Rightarrow> string" where
  "join_prefix a = (if a = [] \<or> last a = sep then a else a @ [sep])"

section \<open>Example objects\<close>

text \<open>Concrete easyblock objects, on which the theorems below are instantiated.\<close>

abbreviation example_neuron :: neuron where
  "example_neuron \<equiv>
     \<lparr>cfg = \<lparr>paranrn = True, configopts = [], parallel = 2, start_dir = ''/build/nrn''\<rparr>,
      version = ''8.2.2'', installdir = ''/opt/nrn'', with_python = False,
      pylibdir = ''UNKNOWN'', module_load_environment = Map.empty\<rparr>"

abbreviation example_juliabundle :: juliabundle where
  "example_juliabundle \<equiv>
     \<lparr>jcfg = \<lparr>exts_defaultclass = PyNone, exts_filter = PyNone,
              exts_default_options = [(''download_pkg_deps'', PyBool True)],
              params = [''download_pkg_deps'' \<mapsto> PyBool False, ''options'' \<mapsto> PyDict []]\<rparr>,
      jname = ''JuliaBundle'', jinstalldir = ''/opt/jb'',
      julia_project_toml = None, julia_project_env = None\<rparr>"

abbreviation example_shell :: "string \<Rightarrow> string option \<Rightarrow> shell_result" where
  "example_shell \<equiv>
     (\<lambda>cmd stdin.
        if cmd = ''neurondemo''
        then \<lparr>exit_code = 0,
              cmd_output = [CHR 0x09] @ ''-65 '' @ [nl, CHR 0x09] @ ''5 '' @ [nl, CHR 0x09] @
                           ''-68.134337 '' @ [nl]\<rparr>
        else \<lparr>exit_code = 0, cmd_output = ''I am 1 of 2'' @ [nl] @ ''I am 0 of 2'' @ [nl]\<rparr>)"

abbreviation example_env :: "string sanity_env" where
  "example_env \<equiv>
     \<lparr>get_shared_lib_ext = ''so'',
      CMakeMake_sanity_check_step = (\<lambda>paths self. (Inr (), self)),
      load_fake_module = Inr ''fake module'',
      clean_up_fake_module = Map.empty,
      shell = example_shell,
      mpi_tests = True,
      getcwd = Inr ''/tmp'',
      chdir = Map.empty,
      mpi_cmd_for = (\<lambda>cmd n. Inr (''mpirun -np '' @ format_d n @ '' '' @ cmd))\<rparr>"

section \<open>EB_NEURON.configure_step\<close>

lemma configure_step_unfold:
  "EB_NEURON_configure_step parent roots dp self =
    (let self' = self\<lparr>cfg := (cfg self)\<lparr>configopts := configopts (cfg self) @
          [if paranrn (cfg self) then ''-DNRN_ENABLE_MPI=ON'' else ''-DNRN_ENABLE_MPI=OFF'',
           if truthy (roots ''InterViews'')
           then ''-DIV_DIR='' @ fstr (roots ''InterViews'') @ '' -DNRN_ENABLE_INTERVIEWS=ON''
           else ''-DNRN_ENABLE_INTERVIEWS=OFF''] @
          (if truthy (roots ''Python'')
           then [''-DNRN_ENABLE_PYTHON=ON -DPYTHON_EXECUTABLE='' @ fstr (roots ''Python'') @
                   ''/bin/python'',
                 ''-DNRN_ENABLE_MODULE_INSTALL=ON -DNRN_MODULE_INSTALL_OPTIONS='' @ [sq] @
                   ''--prefix='' @ installdir self @ [sq]]
           else [''-DNRN_ENABLE_PYTHON=OFF''])\<rparr>,
        with_python := (truthy (roots ''Python'') \<or> with_python self)\<rparr>
     in case dp of Inl e \<Rightarrow> (Inl (Propagated e), self')
        | Inr d \<Rightarrow> propagate (parent (self'\<lparr>pylibdir := d\<rparr>)))"
  by (cases self)
     (simp add: EB_NEURON_configure_step_def Let_def cfg_update_configopts_def split: sum.splits)

text \<open>
  Claim C2. Whatever the easyconfig, the dependencies and the answer of \<open>det_pylibdir\<close>,
  \<open>configure_step\<close> leaves the old \<open>configopts\<close> in place and appends to it, first,
  \<open>-DNRN_ENABLE_MPI=ON\<close> when \<open>paranrn\<close> is true and \<open>-DNRN_ENABLE_MPI=OFF\<close> when it is
  false, and second, \<open>-DIV_DIR=<root> -DNRN_ENABLE_INTERVIEWS=ON\<close> when InterViews has a
  (non-empty) installation root and \<open>-DNRN_ENABLE_INTERVIEWS=OFF\<close> otherwise. None of
  these four flags is among the values appended after them, so exactly one flag of each
  pair is appended. The object so configured is the one handed to the parent's
  \<open>configure_step\<close> (with \<open>pylibdir\<close> set), or the one left behind when \<open>det_pylibdir\<close>
  raises.
\<close>

theorem configure_step_mpi_interviews_flags:
  "\<exists>self' rest.
     EB_NEURON_configure_step parent roots dp self =
       (case dp of Inl e \<Rightarrow> (Inl (Propagated e), self')
        | Inr d \<Rightarrow> propagate (parent (self'\<lparr>pylibdir := d\<rparr>))) \<and>
     configopts (cfg self') = configopts (cfg self) @
       [if paranrn (cfg self) then ''-DNRN_ENABLE_MPI=ON'' else ''-DNRN_ENABLE_MPI=OFF'',
        if truthy (roots ''InterViews'')
        then ''-DIV_DIR='' @ fstr (roots ''InterViews'') @ '' -DNRN_ENABLE_INTERVIEWS=ON''
        else ''-DNRN_ENABLE_INTERVIEWS=OFF''] @ rest \<and>
     ''-DNRN_ENABLE_MPI=ON'' \<notin> set rest \<and>
     ''-DNRN_ENABLE_MPI=OFF'' \<notin> set rest \<and>
     ''-DNRN_ENABLE_INTERVIEWS=OFF'' \<notin> set rest \<and>
     (\<forall>r. ''-DIV_DIR='' @ r @ '' -DNRN_ENABLE_INTERVIEWS=ON'' \<notin> set rest)"
proof -
  let ?rest = "if truthy (roots ''Python'')
     then [''-DNRN_ENABLE_PYTHON=ON -DPYTHON_EXECUTABLE='' @ fstr (roots ''Python'') @
             ''/bin/python'',
           ''-DNRN_ENABLE_MODULE_INSTALL=ON -DNRN_MODULE_INSTALL_OPTIONS='' @ [sq] @
             ''--prefix='' @ installdir self @ [sq]]
     else [''-DNRN_ENABLE_PYTHON=OFF'']"
  let ?self' = "self\<lparr>cfg := (cfg self)\<lparr>configopts := configopts (cfg self) @
          [if paranrn (cfg self) then ''-DNRN_ENABLE_MPI=ON'' else ''-DNRN_ENABLE_MPI=OFF'',
           if truthy (roots ''InterViews'')
           then ''-DIV_DIR='' @ fstr (roots ''InterViews'') @ '' -DNRN_ENABLE_INTERVIEWS=ON''
           else ''-DNRN_ENABLE_INTERVIEWS=OFF''] @ ?rest\<rparr>,
        with_python := (truthy (roots ''Python'') \<or> with_python self)\<rparr>"
  have "EB_NEURON_configure_step parent roots dp self =
       (case dp of Inl e \<Rightarrow> (Inl (Propagated e), ?self')
        | Inr d \<Rightarrow> propagate (parent (?self'\<lparr>pylibdir := d\<rparr>)))"
    by (simp only: configure_step_unfold Let_def)
  moreover have "''-DNRN_ENABLE_MPI=ON'' \<notin> set ?rest" "''-DNRN_ENABLE_MPI=OFF'' \<notin> set ?rest"
    "''-DNRN_ENABLE_INTERVIEWS=OFF'' \<notin> set ?rest"
    "\<forall>r. ''-DIV_DIR='' @ r @ '' -DNRN_ENABLE_INTERVIEWS=ON'' \<notin> set ?rest"
    by simp_all
  moreover have "configopts (cfg ?self') = configopts (cfg self) @
       [if paranrn (cfg self) then ''-DNRN_ENABLE_MPI=ON'' else ''-DNRN_ENABLE_MPI=OFF'',
        if truthy (roots ''InterViews'')
        then ''-DIV_DIR='' @ fstr (roots ''InterViews'') @ '' -DNRN_ENABLE_INTERVIEWS=ON''
        else ''-DNRN_ENABLE_INTERVIEWS=OFF''] @ ?rest"
    by simp
  ultimately show ?thesis
    by blast
qed

text \<open>
  Claim C5. \<open>configure_step\<close> hands to \<open>CMakeMake.configure_step\<close> the object it was given
  with these changes only: \<open>configopts\<close> is the old list followed by the two flags of
  claim C2 and then, when Python has a (non-empty) installation root,
  \<open>-DNRN_ENABLE_PYTHON=ON -DPYTHON_EXECUTABLE=<python_root>/bin/python\<close> and
  \<open>-DNRN_ENABLE_MODULE_INSTALL=ON -DNRN_MODULE_INSTALL_OPTIONS='--prefix=<installdir>'\<close>,
  and otherwise \<open>-DNRN_ENABLE_PYTHON=OFF\<close>; \<open>with_python\<close> becomes true in the first
  case and keeps its value in the second (false, on an object fresh from
  \<open>__init__\<close>); \<open>pylibdir\<close> is set. Every other easyconfig parameter is as before.
  When \<open>det_pylibdir\<close> raises, the same changes but \<open>pylibdir\<close> are left on the object
  and the parent is not called.
\<close>

theorem configure_step_python_flags:
  "\<exists>pre. length pre = 2 \<and>
     EB_NEURON_configure_step parent roots (Inr d) self =
       propagate (parent (self\<lparr>cfg := (cfg self)\<lparr>configopts := configopts (cfg self) @ pre @
           (if truthy (roots ''Python'')
            then [''-DNRN_ENABLE_PYTHON=ON -DPYTHON_EXECUTABLE='' @ fstr (roots ''Python'') @
                    ''/bin/python'',
                  ''-DNRN_ENABLE_MODULE_INSTALL=ON -DNRN_MODULE_INSTALL_OPTIONS='' @ [sq] @
                    ''--prefix='' @ installdir self @ [sq]]
            else [''-DNRN_ENABLE_PYTHON=OFF''])\<rparr>,
         with_python := (if truthy (roots ''Python'') then True else with_python self),
         pylibdir := d\<rparr>)) \<and>
     EB_NEURON_configure_step parent roots (Inl e) self =
       (Inl (Propagated e),
        self\<lparr>cfg := (cfg self)\<lparr>configopts := configopts (cfg self) @ pre @
           (if truthy (roots ''Python'')
            then [''-DNRN_ENABLE_PYTHON=ON -DPYTHON_EXECUTABLE='' @ fstr (roots ''Python'') @
                    ''/bin/python'',
                  ''-DNRN_ENABLE_MODULE_INSTALL=ON -DNRN_MODULE_INSTALL_OPTIONS='' @ [sq] @
                    ''--prefix='' @ installdir self @ [sq]]
            else [''-DNRN_ENABLE_PYTHON=OFF''])\<rparr>,
         with_python := (if truthy (roots ''Python'') then True else with_python self)\<rparr>) \<and>
     with_python (EB_NEURON_init self) = False"
  unfolding configure_step_unfold Let_def
  by (rule exI [where x = "[if paranrn (cfg self) then ''-DNRN_ENABLE_MPI=ON''
                            else ''-DNRN_ENABLE_MPI=OFF'',
                            if truthy (roots ''InterViews'')
                            then ''-DIV_DIR='' @ fstr (roots ''InterViews'') @
                                 '' -DNRN_ENABLE_INTERVIEWS=ON''
                            else ''-DNRN_ENABLE_INTERVIEWS=OFF'']"])
     (simp add: EB_NEURON_init_def)


section \<open>EB_NEURON: the module file\<close>

text \<open>
  Claim C7. \<open>make_module_step\<close> hands to the parent's \<open>make_module_step\<close> the object it
  was given, where only \<open>PYTHONPATH\<close> of the module load environment may differ: when
  \<open>with_python\<close> is true it is the one-entry list \<open>lib/python*/site-packages\<close> for a
  version below 8 (in the order of \<open>LooseVersion\<close>) and \<open>lib/python\<close> otherwise; when
  \<open>with_python\<close> is false the module load environment is the one the object had.
\<close>

theorem make_module_step_pythonpath:
  "EB_NEURON_make_module_step parent LooseVersion_lt self =
     propagate (parent (self\<lparr>module_load_environment :=
        (if with_python self
         then (module_load_environment self)(''PYTHONPATH'' \<mapsto>
                [if LooseVersion_lt (version self) ''8'' then ''lib/python*/site-packages''
                 else ''lib/python''])
         else module_load_environment self)\<rparr>))"
  by (simp add: EB_NEURON_make_module_step_def os_path_join_def join_step_def sep_def)

lemma add_compiler_vars_eq:
  "add_compiler_vars getenv set_environment vars t =
     t @ concat (map (\<lambda>var. set_environment var (the (getenv var)))
                       (filter (\<lambda>var. getenv var \<noteq> None \<and> getenv var \<noteq> Some []) vars))"
  by (induction vars arbitrary: t) (auto split: option.splits)

text \<open>
  Claim C10. When the parent's \<open>make_module_extra\<close> returns a text, \<open>make_module_extra\<close>
  returns that text followed by one \<open>set_environment\<close> entry, with the value found in
  the environment, for each of \<open>CC\<close>, \<open>CXX\<close>, \<open>MPICC\<close>, \<open>MPICXX\<close>, \<open>MPICH_CC\<close>,
  \<open>MPICH_CXX\<close> that is set to a non-empty value, in this order, and by nothing else.
\<close>

theorem make_module_extra_compiler_vars:
  assumes "parent self = Inr txt"
  shows "EB_NEURON_make_module_extra parent getenv set_environment self =
     Inr (txt @ concat (map (\<lambda>var. set_environment var (the (getenv var)))
            (filter (\<lambda>var. getenv var \<noteq> None \<and> getenv var \<noteq> Some [])
               [''CC'', ''CXX'', ''MPICC'', ''MPICXX'', ''MPICH_CC'', ''MPICH_CXX''])))"
  using assms by (simp only: EB_NEURON_make_module_extra_def add_compiler_vars_eq sum.case)

theorem make_module_extra_compiler_vars_witness:
  "EB_NEURON_make_module_extra (\<lambda>self. Inr (''# NEURON '' @ version self))
     [''CC'' \<mapsto> ''gcc'', ''CXX'' \<mapsto> [], ''MPICXX'' \<mapsto> ''mpicxx'']
     (\<lambda>var val. ''setenv '' @ var @ '' '' @ val @ '';'') example_neuron =
   Inr ''# NEURON 8.2.2setenv CC gcc;setenv MPICXX mpicxx;''"
  using make_module_extra_compiler_vars
    [of "\<lambda>self. Inr (''# NEURON '' @ version self)" example_neuron "''# NEURON 8.2.2''"
        "[''CC'' \<mapsto> ''gcc'', ''CXX'' \<mapsto> [], ''MPICXX'' \<mapsto> ''mpicxx'']"
        "\<lambda>var val. ''setenv '' @ var @ '' '' @ val @ '';''"]
  by simp

section \<open>JuliaBundle.__init__\<close>

lemma set_default_options_frame:
  "exts_defaultclass (snd (set_default_options keys c)) = exts_defaultclass c \<and>
   exts_filter (snd (set_default_options keys c)) = exts_filter c \<and>
   params (snd (set_default_options keys c)) = params c"
  by (induction keys arbitrary: c) (auto split: option.splits)

lemma cfg_get_update:
  "key \<noteq> ''exts_default_options'' \<Longrightarrow>
   cfg_get (c\<lparr>exts_default_options := d\<rparr>) key = cfg_get c key"
  by (simp add: cfg_get_def)

lemma set_default_options_ok:
  assumes "\<forall>key \<in> set keys. cfg_get c key \<noteq> None" "''exts_default_options'' \<notin> set keys"
  shows "fst (set_default_options keys c) = Inr () \<and>
         map_of (exts_default_options (snd (set_default_options keys c))) =
           (\<lambda>k. if map_of (exts_default_options c) k = None \<and> k \<in> set keys
                then cfg_get c k else map_of (exts_default_options c) k)"
  using assms
proof (induction keys arbitrary: c)
  case Nil
  then show ?case by simp
next
  case (Cons key keys)
  show ?case
  proof (cases "map_of (exts_default_options c) key = None")
    case False
    with Cons show ?thesis by (auto simp: fun_eq_iff)
  next
    case True
    from Cons.prems obtain v where v: "cfg_get c key = Some v" by auto
    let ?c = "c\<lparr>exts_default_options := AList.update key v (exts_default_options c)\<rparr>"
    have eq: "cfg_get ?c k = cfg_get c k" if "k \<in> set keys" for k
    proof -
      from that Cons.prems have "k \<noteq> ''exts_default_options''" by auto
      then show ?thesis by (rule cfg_get_update)
    qed
    have "\<forall>k \<in> set keys. cfg_get ?c k \<noteq> None"
      using Cons.prems eq by simp
    moreover have "''exts_default_options'' \<notin> set keys" using Cons.prems by simp
    ultimately have IH: "fst (set_default_options keys ?c) = Inr () \<and>
         map_of (exts_default_options (snd (set_default_options keys ?c))) =
           (\<lambda>k. if map_of (exts_default_options ?c) k = None \<and> k \<in> set keys
                then cfg_get ?c k else map_of (exts_default_options ?c) k)"
      by (rule Cons.IH)
    from IH True v eq show ?thesis
      by (auto simp: fun_eq_iff update_conv')
  qed
qed

lemma JuliaBundle_init_class_filter:
  "exts_defaultclass (jcfg (snd (JuliaBundle_init F keys self))) = PyStr ''JuliaPackage'' \<and>
   exts_filter (jcfg (snd (JuliaBundle_init F keys self))) = F"
proof -
  let ?c = "(jcfg self)\<lparr>exts_defaultclass := PyStr ''JuliaPackage'', exts_filter := F\<rparr>"
  obtain r c' where r: "set_default_options keys ?c = (r, c')"
    by (cases "set_default_options keys ?c")
  have "exts_defaultclass c' = PyStr ''JuliaPackage'' \<and> exts_filter c' = F"
    using set_default_options_frame [of keys ?c] r by simp
  with r show ?thesis
    by (cases r) (simp_all add: JuliaBundle_init_def Let_def)
qed

text \<open>
  Claim C8. \<open>__init__\<close> always sets \<open>exts_defaultclass\<close> to \<open>JuliaPackage\<close> and
  \<open>exts_filter\<close> to the Julia extension filter. When every key of
  \<open>JuliaPackage.extra_options\<close> is a parameter of the easyconfig (and none of them is
  \<open>exts_default_options\<close> itself, whose value would be the dictionary being filled),
  \<open>__init__\<close> returns normally and changes nothing else but \<open>exts_default_options\<close>,
  where: a key that was present keeps its value; a key of \<open>JuliaPackage.extra_options\<close>
  that was absent gets the top-level value of the easyconfig; \<open>sources\<close> gets the default
  renaming entry when it was absent (and is not such a key); and every other absent key
  stays absent.
\<close>

theorem JuliaBundle_init_defaults:
  "exts_defaultclass (jcfg (snd (JuliaBundle_init F keys self))) = PyStr ''JuliaPackage'' \<and>
   exts_filter (jcfg (snd (JuliaBundle_init F keys self))) = F \<and>
   ((\<forall>key \<in> set keys. cfg_get (jcfg self) key \<noteq> None) \<and> ''exts_default_options'' \<notin> set keys \<longrightarrow>
    (\<exists>c'. JuliaBundle_init F keys self = (Inr (), self\<lparr>jcfg := c'\<rparr>) \<and>
       params c' = params (jcfg self) \<and>
       (\<forall>k. map_of (exts_default_options (jcfg self)) k \<noteq> None \<longrightarrow>
            map_of (exts_default_options c') k = map_of (exts_default_options (jcfg self)) k) \<and>
       (\<forall>k \<in> set keys. map_of (exts_default_options (jcfg self)) k = None \<longrightarrow>
            map_of (exts_default_options c') k = cfg_get c' k) \<and>
       (map_of (exts_default_options (jcfg self)) ''sources'' = None \<and> ''sources'' \<notin> set keys \<longrightarrow>
            map_of (exts_default_options c') ''sources'' = Some default_sources) \<and>
       (\<forall>k. map_of (exts_default_options (jcfg self)) k = None \<and> k \<notin> set keys \<and>
            k \<noteq> ''sources'' \<longrightarrow> map_of (exts_default_options c') k = None)))"
proof (intro conjI impI)
  show "exts_defaultclass (jcfg (snd (JuliaBundle_init F keys self))) = PyStr ''JuliaPackage''"
    and "exts_filter (jcfg (snd (JuliaBundle_init F keys self))) = F"
    using JuliaBundle_init_class_filter by blast+
next
  assume hyp: "(\<forall>key \<in> set keys. cfg_get (jcfg self) key \<noteq> None) \<and>
               ''exts_default_options'' \<notin> set keys"
  let ?d = "exts_default_options (jcfg self)"
  let ?c = "(jcfg self)\<lparr>exts_defaultclass := PyStr ''JuliaPackage'', exts_filter := F\<rparr>"
  obtain r c1 where r: "set_default_options keys ?c = (r, c1)"
    by (cases "set_default_options keys ?c")
  have known: "\<forall>key \<in> set keys. cfg_get ?c key \<noteq> None"
    using hyp by (auto simp: cfg_get_def)
  have nd: "''exts_default_options'' \<notin> set keys"
    using hyp by simp
  note sdo = set_default_options_ok [OF known nd]
  have ok: "r = Inr ()"
    using sdo r by simp
  have "map_of (exts_default_options c1) =
      (\<lambda>k. if map_of (exts_default_options ?c) k = None \<and> k \<in> set keys
           then cfg_get ?c k else map_of (exts_default_options ?c) k)"
    using sdo r by simp
  then have d1: "map_of (exts_default_options c1) =
      (\<lambda>k. if map_of ?d k = None \<and> k \<in> set keys then cfg_get ?c k else map_of ?d k)"
    by (simp cong: if_cong)
  from set_default_options_frame [of keys ?c] r
  have frame: "exts_defaultclass c1 = PyStr ''JuliaPackage''" "exts_filter c1 = F"
    "params c1 = params (jcfg self)"
    by simp_all
  define c' where "c' = (if map_of (exts_default_options c1) ''sources'' = None
             then c1\<lparr>exts_default_options :=
                      AList.update ''sources'' default_sources (exts_default_options c1)\<rparr>
             else c1)"
  have res: "JuliaBundle_init F keys self = (Inr (), self\<lparr>jcfg := c'\<rparr>)"
    using r ok by (simp add: JuliaBundle_init_def Let_def c'_def)
  have get: "cfg_get c' k = cfg_get ?c k" if "k \<noteq> ''exts_default_options''" for k
    using that frame by (simp add: cfg_get_def c'_def)
  have d': "map_of (exts_default_options c') k =
      (if map_of ?d ''sources'' = None \<and> ''sources'' \<notin> set keys \<and> k = ''sources''
       then Some default_sources
       else if map_of ?d k = None \<and> k \<in> set keys then cfg_get ?c k else map_of ?d k)" for k
  proof (cases "''sources'' \<in> set keys")
    case True
    with known obtain v where "cfg_get ?c ''sources'' = Some v" by auto
    with True show ?thesis
      by (auto simp: c'_def update_conv' d1)
  next
    case False
    then show ?thesis
      by (auto simp: c'_def update_conv' d1)
  qed
  have p1: "params c' = params (jcfg self)"
    using frame by (simp add: c'_def)
  have p2: "\<forall>k. map_of ?d k \<noteq> None \<longrightarrow> map_of (exts_default_options c') k = map_of ?d k"
    by (auto simp: d')
  have p3: "\<forall>k \<in> set keys. map_of ?d k = None \<longrightarrow>
              map_of (exts_default_options c') k = cfg_get c' k"
  proof (intro ballI impI)
    fix k assume k: "k \<in> set keys" "map_of ?d k = None"
    with nd have ne: "k \<noteq> ''exts_default_options''" by auto
    from k show "map_of (exts_default_options c') k = cfg_get c' k"
      unfolding get [OF ne] by (auto simp: d')
  qed
  have p4: "map_of ?d ''sources'' = None \<and> ''sources'' \<notin> set keys \<longrightarrow>
              map_of (exts_default_options c') ''sources'' = Some default_sources"
    by (simp add: d')
  have p5: "\<forall>k. map_of ?d k = None \<and> k \<notin> set keys \<and> k \<noteq> ''sources'' \<longrightarrow>
              map_of (exts_default_options c') k = None"
    by (simp add: d')
  from res p1 p2 p3 p4 p5
  show "\<exists>c'. JuliaBundle_init F keys self = (Inr (), self\<lparr>jcfg := c'\<rparr>) \<and>
       params c' = params (jcfg self) \<and>
       (\<forall>k. map_of ?d k \<noteq> None \<longrightarrow> map_of (exts_default_options c') k = map_of ?d k) \<and>
       (\<forall>k \<in> set keys. map_of ?d k = None \<longrightarrow> map_of (exts_default_options c') k = cfg_get c' k) \<and>
       (map_of ?d ''sources'' = None \<and> ''sources'' \<notin> set keys \<longrightarrow>
            map_of (exts_default_options c') ''sources'' = Some default_sources) \<and>
       (\<forall>k. map_of ?d k = None \<and> k \<notin> set keys \<and> k \<noteq> ''sources'' \<longrightarrow>
            map_of (exts_default_options c') k = None)"
    by blast
qed

theorem JuliaBundle_init_defaults_witness:
  "\<exists>c'. JuliaBundle_init (PyTuple [PyStr ''julia'', PyStr ''-e'']) [''download_pkg_deps'', ''options'']
           example_juliabundle = (Inr (), example_juliabundle\<lparr>jcfg := c'\<rparr>) \<and>
     exts_defaultclass c' = PyStr ''JuliaPackage'' \<and>
     exts_filter c' = PyTuple [PyStr ''julia'', PyStr ''-e''] \<and>
     map_of (exts_default_options c') ''download_pkg_deps'' = Some (PyBool True) \<and>
     map_of (exts_default_options c') ''options'' = Some (PyDict []) \<and>
     map_of (exts_default_options c') ''sources'' = Some default_sources \<and>
     map_of (exts_default_options c') ''preinstallopts'' = None"
proof -
  let ?F = "PyTuple [PyStr ''julia'', PyStr ''-e'']"
  let ?keys = "[''download_pkg_deps'', ''options'']"
  have hyp: "(\<forall>key \<in> set ?keys. cfg_get (jcfg example_juliabundle) key \<noteq> None) \<and>
             ''exts_default_options'' \<notin> set ?keys"
    by (simp add: cfg_get_def)
  from JuliaBundle_init_defaults [of ?F ?keys example_juliabundle] hyp
  obtain c' where c':
    "JuliaBundle_init ?F ?keys example_juliabundle = (Inr (), example_juliabundle\<lparr>jcfg := c'\<rparr>)"
    "exts_defaultclass (jcfg (snd (JuliaBundle_init ?F ?keys example_juliabundle))) =
       PyStr ''JuliaPackage''"
    "exts_filter (jcfg (snd (JuliaBundle_init ?F ?keys example_juliabundle))) = ?F"
    "params c' = params (jcfg example_juliabundle)"
    "\<forall>k. map_of (exts_default_options (jcfg example_juliabundle)) k \<noteq> None \<longrightarrow>
         map_of (exts_default_options c') k =
         map_of (exts_default_options (jcfg example_juliabundle)) k"
    "\<forall>k \<in> set ?keys. map_of (exts_default_options (jcfg example_juliabundle)) k = None \<longrightarrow>
         map_of (exts_default_options c') k = cfg_get c' k"
    "map_of (exts_default_options (jcfg example_juliabundle)) ''sources'' = None \<and>
       ''sources'' \<notin> set ?keys \<longrightarrow>
         map_of (exts_default_options c') ''sources'' = Some default_sources"
    "\<forall>k. map_of (exts_default_options (jcfg example_juliabundle)) k = None \<and> k \<notin> set ?keys \<and>
         k \<noteq> ''sources'' \<longrightarrow> map_of (exts_default_options c') k = None"
    by blast
  from c'(5) have a: "map_of (exts_default_options c') ''download_pkg_deps'' = Some (PyBool True)"
    by simp
  from c'(6) c'(4) have b: "map_of (exts_default_options c') ''options'' = Some (PyDict [])"
    by (simp add: cfg_get_def)
  from c'(7) have c: "map_of (exts_default_options c') ''sources'' = Some default_sources"
    by simp
  from c'(8) have d: "map_of (exts_default_options c') ''preinstallopts'' = None"
    by simp
  from c'(1) c'(2) c'(3) a b c d show ?thesis
    by auto
qed

section \<open>Paths\<close>

lemma join_step_relative:
  "b = [] \<or> hd b \<noteq> sep \<Longrightarrow> join_step a b = join_prefix a @ b"
  by (auto simp: join_step_def join_prefix_def)

lemma rstrip_sep_snoc [simp]: "rstrip_sep (xs @ [sep]) = rstrip_sep xs"
  by (simp add: rstrip_sep_def)

lemma rstrip_sep_id: "xs = [] \<or> last xs \<noteq> sep \<Longrightarrow> rstrip_sep xs = xs"
  by (cases xs rule: rev_cases) (auto simp: rstrip_sep_def)

lemma dirname_append:
  assumes "sep \<notin> set b" "sep \<noteq> c" "c \<in> set y"
  shows "os_path_dirname (y @ [sep] @ b) = rstrip_sep y"
proof -
  have "dropWhile (\<lambda>c. c \<noteq> sep) (rev (y @ [sep] @ b)) = sep # rev y"
    using assms(1) by (simp, subst dropWhile_append2) auto
  then have head: "rev (dropWhile (\<lambda>c. c \<noteq> sep) (rev (y @ [sep] @ b))) = y @ [sep]"
    by simp
  have "y @ [sep] \<noteq> replicate (length (y @ [sep])) sep"
  proof
    assume "y @ [sep] = replicate (length (y @ [sep])) sep"
    then have "set (y @ [sep]) \<subseteq> {sep}"
      by (metis set_replicate_conv_if empty_subsetI subset_refl)
    with assms(2,3) show False by auto
  qed
  then show ?thesis
    unfolding os_path_dirname_def head Let_def by simp
qed

lemma project_toml_eq:
  "os_path_join ''environments'' [''v'' @ major @ ''.'' @ minor, ''Project.toml''] =
     ''environments/v'' @ major @ ''.'' @ minor @
       (if minor \<noteq> [] \<and> last minor = sep then [] else [sep]) @ ''Project.toml''"
  by (simp add: os_path_join_def join_step_def sep_def)

lemma project_env_eq:
  "os_path_dirname (os_path_join inst
       [os_path_join ''environments'' [''v'' @ major @ ''.'' @ minor, ''Project.toml'']]) =
   rstrip_sep (os_path_join inst [''environments'', ''v'' @ major @ ''.'' @ minor])"
proof -
  let ?E = "''v'' @ major @ ''.'' @ minor"
  let ?Z = "join_prefix inst @ ''environments/'' @ ?E"
  have e: "CHR ''e'' \<in> set ?Z" "sep \<noteq> CHR ''e''" "sep \<notin> set ''Project.toml''"
    by (simp_all add: sep_def)
  have j2: "os_path_join inst [''environments'', ?E] = ?Z"
    by (simp add: os_path_join_def join_step_relative sep_def)
       (simp add: join_prefix_def sep_def)
  show ?thesis
  proof (cases "minor \<noteq> [] \<and> last minor = sep")
    case True
    then obtain m where m: "minor = m @ [sep]"
      by (metis append_butlast_last_id)
    let ?Y = "join_prefix inst @ ''environments/v'' @ major @ ''.'' @ m"
    have "os_path_join inst [os_path_join ''environments'' [?E, ''Project.toml'']] =
          ?Y @ [sep] @ ''Project.toml''"
      unfolding project_toml_eq using True m
      by (simp add: os_path_join_def join_step_relative sep_def)
    moreover have "CHR ''e'' \<in> set ?Y" by simp
    ultimately have "os_path_dirname (os_path_join inst
        [os_path_join ''environments'' [?E, ''Project.toml'']]) = rstrip_sep ?Y"
      using dirname_append [of "''Project.toml''" "CHR ''e''" ?Y] e by simp
    also have "\<dots> = rstrip_sep (?Y @ [sep])" by (rule rstrip_sep_snoc [symmetric])
    also have "?Y @ [sep] = ?Z" using m by simp
    finally show ?thesis using j2 by simp
  next
    case False
    have "os_path_join inst [os_path_join ''environments'' [?E, ''Project.toml'']] =
          ?Z @ [sep] @ ''Project.toml''"
      unfolding project_toml_eq using False
      by (simp add: os_path_join_def join_step_relative sep_def)
    then have "os_path_dirname (os_path_join inst
        [os_path_join ''environments'' [?E, ''Project.toml'']]) = rstrip_sep ?Z"
      using dirname_append [of "''Project.toml''" "CHR ''e''" ?Z] e by simp
    then show ?thesis using j2 by simp
  qed
qed

section \<open>JuliaBundle.prepare_step\<close>

lemma prepare_step_parent_raises:
  "Bundle_prepare_step self = (Inl e, self1) \<Longrightarrow>
   JuliaBundle_prepare_step Bundle_prepare_step roots versions mkdir self =
     ((Inl (Propagated e), self1), [])"
  by (simp add: JuliaBundle_prepare_step_def)

lemma prepare_step_no_julia:
  "Bundle_prepare_step self = (Inr u, self1) \<Longrightarrow> roots ''Julia'' = None \<Longrightarrow>
   JuliaBundle_prepare_step Bundle_prepare_step roots versions mkdir self =
     ((Inl (EasyBuildError ''Julia not included as dependency!''), self1), [])"
  by (simp add: JuliaBundle_prepare_step_def)

lemma prepare_step_no_version:
  "Bundle_prepare_step self = (Inr u, self1) \<Longrightarrow> roots ''Julia'' = Some r \<Longrightarrow>
   versions ''Julia'' = None \<Longrightarrow>
   JuliaBundle_prepare_step Bundle_prepare_step roots versions mkdir self =
     ((Inl (AttributeError ''split''), self1), [])"
  by (simp add: JuliaBundle_prepare_step_def)

lemma prepare_step_one_component:
  "Bundle_prepare_step self = (Inr u, self1) \<Longrightarrow> roots ''Julia'' = Some r \<Longrightarrow>
   versions ''Julia'' = Some v \<Longrightarrow> split_on CHR ''.'' v = [major] \<Longrightarrow>
   JuliaBundle_prepare_step Bundle_prepare_step roots versions mkdir self =
     ((Inl (IndexError ''Replacement index 1 out of range''), self1), [])"
  by (simp add: JuliaBundle_prepare_step_def)

lemma prepare_step_two_components:
  assumes "Bundle_prepare_step self = (Inr u, self1)" "roots ''Julia'' = Some r"
    "versions ''Julia'' = Some v" "split_on CHR ''.'' v = major # minor # rest"
  shows "JuliaBundle_prepare_step Bundle_prepare_step roots versions mkdir self =
     (let toml = os_path_join ''environments'' [''v'' @ major @ ''.'' @ minor, ''Project.toml''];
          env = os_path_dirname (os_path_join (jinstalldir self1) [toml])
      in ((case mkdir env of Some e \<Rightarrow> Inl (Propagated e) | None \<Rightarrow> Inr (),
           self1\<lparr>julia_project_toml := Some toml, julia_project_env := Some env\<rparr>), [env]))"
  using assms by (simp add: JuliaBundle_prepare_step_def Let_def split: option.splits)

lemma split_on_cases:
  obtains major where "split_on c v = [major]"
  | major minor rest where "split_on c v = major # minor # rest"
proof (cases "split_on c v")
  case Nil
  then show ?thesis by (cases v) (auto split: if_splits list.splits)
next
  case (Cons a as)
  then show ?thesis using that by (cases as) auto
qed

text \<open>
  Claim C9. When the parent's \<open>prepare_step\<close> has returned, \<open>prepare_step\<close> raises the
  \<open>EasyBuildError\<close> "Julia not included as dependency!" if and only if
  \<open>get_software_root('Julia')\<close> is \<open>None\<close>. When Julia has a root and a version of at
  least two components \<open>major\<close> and \<open>minor\<close>, \<open>prepare_step\<close> records the project file
  \<open>environments/v<major>.<minor>/Project.toml\<close> and the directory
  \<open>environments/v<major>.<minor>\<close> joined to the installation directory (without
  trailing separators, of which there are none unless \<open>minor\<close> ends with one), calls
  \<open>mkdir\<close> on that directory and on nothing else, and ends as \<open>mkdir\<close> does.
\<close>

theorem prepare_step_requires_julia:
  assumes parent: "Bundle_prepare_step self = (Inr (), self1)"
  shows
    "(fst (fst (JuliaBundle_prepare_step Bundle_prepare_step roots versions mkdir self)) =
        Inl (EasyBuildError ''Julia not included as dependency!'')) = (roots ''Julia'' = None) \<and>
     (roots ''Julia'' \<noteq> None \<and> versions ''Julia'' = Some v \<and>
      split_on CHR ''.'' v = major # minor # rest \<longrightarrow>
        JuliaBundle_prepare_step Bundle_prepare_step roots versions mkdir self =
          ((case mkdir (rstrip_sep (os_path_join (jinstalldir self1)
                          [''environments'', ''v'' @ major @ ''.'' @ minor])) of
              Some e \<Rightarrow> Inl (Propagated e) | None \<Rightarrow> Inr (),
            self1\<lparr>julia_project_toml :=
                     Some (os_path_join ''environments''
                             [''v'' @ major @ ''.'' @ minor, ''Project.toml'']),
                   julia_project_env :=
                     Some (rstrip_sep (os_path_join (jinstalldir self1)
                             [''environments'', ''v'' @ major @ ''.'' @ minor]))\<rparr>),
           [rstrip_sep (os_path_join (jinstalldir self1)
              [''environments'', ''v'' @ major @ ''.'' @ minor])]) \<and>
        ((minor = [] \<or> last minor \<noteq> sep) \<longrightarrow>
           rstrip_sep (os_path_join (jinstalldir self1)
              [''environments'', ''v'' @ major @ ''.'' @ minor]) =
           os_path_join (jinstalldir self1) [''environments'', ''v'' @ major @ ''.'' @ minor]))"
proof (intro conjI impI)
  let ?R = "JuliaBundle_prepare_step Bundle_prepare_step roots versions mkdir self"
  show "(fst (fst ?R) = Inl (EasyBuildError ''Julia not included as dependency!'')) =
        (roots ''Julia'' = None)"
  proof (cases "roots ''Julia''")
    case None
    then show ?thesis using prepare_step_no_julia [where Bundle_prepare_step = Bundle_prepare_step and self = self and roots = roots
               and versions = versions, OF parent] by simp
  next
    case (Some r)
    show ?thesis
    proof (cases "versions ''Julia''")
      case None
      with Some show ?thesis using prepare_step_no_version [where Bundle_prepare_step = Bundle_prepare_step and self = self and roots = roots
               and versions = versions, OF parent] by simp
    next
      case v: (Some v')
      show ?thesis
      proof (cases rule: split_on_cases [of "CHR ''.''" v'])
        case (1 major)
        with Some v show ?thesis using prepare_step_one_component [where Bundle_prepare_step = Bundle_prepare_step and self = self and roots = roots
               and versions = versions, OF parent] by simp
      next
        case (2 major minor rest)
        with Some v show ?thesis
          using prepare_step_two_components
            [where Bundle_prepare_step = Bundle_prepare_step and self = self and roots = roots
               and versions = versions and mkdir = mkdir, OF parent Some v 2]
          by (simp add: Let_def split: option.splits)
      qed
    qed
  qed
next
  assume a: "roots ''Julia'' \<noteq> None \<and> versions ''Julia'' = Some v \<and>
             split_on CHR ''.'' v = major # minor # rest"
  then obtain r where r: "roots ''Julia'' = Some r" by auto
  from a have v: "versions ''Julia'' = Some v"
    and sp: "split_on CHR ''.'' v = major # minor # rest" by simp_all
  show "JuliaBundle_prepare_step Bundle_prepare_step roots versions mkdir self =
          ((case mkdir (rstrip_sep (os_path_join (jinstalldir self1)
                          [''environments'', ''v'' @ major @ ''.'' @ minor])) of
              Some e \<Rightarrow> Inl (Propagated e) | None \<Rightarrow> Inr (),
            self1\<lparr>julia_project_toml :=
                     Some (os_path_join ''environments''
                             [''v'' @ major @ ''.'' @ minor, ''Project.toml'']),
                   julia_project_env :=
                     Some (rstrip_sep (os_path_join (jinstalldir self1)
                             [''environments'', ''v'' @ major @ ''.'' @ minor]))\<rparr>),
           [rstrip_sep (os_path_join (jinstalldir self1)
              [''environments'', ''v'' @ major @ ''.'' @ minor])])"
    unfolding prepare_step_two_components
        [where Bundle_prepare_step = Bundle_prepare_step and self = self and roots = roots
           and versions = versions, OF parent r v sp]
      Let_def project_env_eq
    by (rule refl)
next
  assume "minor = [] \<or> last minor \<noteq> sep"
  then have "last (os_path_join (jinstalldir self1)
               [''environments'', ''v'' @ major @ ''.'' @ minor]) \<noteq> sep"
    by (auto simp: os_path_join_def join_step_def sep_def)
  then show "rstrip_sep (os_path_join (jinstalldir self1)
              [''environments'', ''v'' @ major @ ''.'' @ minor]) =
           os_path_join (jinstalldir self1) [''environments'', ''v'' @ major @ ''.'' @ minor]"
    by (simp add: rstrip_sep_id)
qed

theorem prepare_step_requires_julia_witness:
  "JuliaBundle_prepare_step (Pair (Inr ())) [''Julia'' \<mapsto> ''/opt/julia'']
      [''Julia'' \<mapsto> ''1.9.3''] Map.empty example_juliabundle =
     ((Inr (), example_juliabundle
         \<lparr>julia_project_toml := Some ''environments/v1.9/Project.toml'',
          julia_project_env := Some ''/opt/jb/environments/v1.9''\<rparr>),
      [''/opt/jb/environments/v1.9'']) \<and>
   fst (fst (JuliaBundle_prepare_step (Pair (Inr ())) Map.empty [''Julia'' \<mapsto> ''1.9.3'']
      Map.empty example_juliabundle)) = Inl (EasyBuildError ''Julia not included as dependency!'')"
proof -
  have sp: "split_on CHR ''.'' ''1.9.3'' = ''1'' # ''9'' # [''3'']"
    by simp
  have p: "Pair (Inr ()) example_juliabundle = (Inr (), example_juliabundle)"
    by simp
  have j: "os_path_join ''/opt/jb'' [''environments'', ''v'' @ ''1'' @ ''.'' @ ''9''] =
           ''/opt/jb/environments/v1.9''"
    "os_path_join ''environments'' [''v'' @ ''1'' @ ''.'' @ ''9'', ''Project.toml''] =
           ''environments/v1.9/Project.toml''"
    by (simp_all add: os_path_join_def join_step_def sep_def)
  from prepare_step_requires_julia
    [where Bundle_prepare_step = "Pair (Inr ())" and self = example_juliabundle
       and roots = "[''Julia'' \<mapsto> ''/opt/julia'']" and versions = "[''Julia'' \<mapsto> ''1.9.3'']"
       and v = "''1.9.3''" and major = "''1''" and minor = "''9''" and rest = "[''3'']"
       and mkdir = Map.empty, OF p]
  have "JuliaBundle_prepare_step (Pair (Inr ())) [''Julia'' \<mapsto> ''/opt/julia'']
      [''Julia'' \<mapsto> ''1.9.3''] Map.empty example_juliabundle =
     ((Inr (), example_juliabundle
         \<lparr>julia_project_toml := Some ''environments/v1.9/Project.toml'',
          julia_project_env := Some ''/opt/jb/environments/v1.9''\<rparr>),
      [''/opt/jb/environments/v1.9''])"
    using sp j by (simp add: sep_def)
  moreover from prepare_step_requires_julia
    [where Bundle_prepare_step = "Pair (Inr ())" and self = example_juliabundle
       and roots = Map.empty and versions = "[''Julia'' \<mapsto> ''1.9.3'']" and mkdir = Map.empty,
     OF p]
  have "fst (fst (JuliaBundle_prepare_step (Pair (Inr ())) Map.empty [''Julia'' \<mapsto> ''1.9.3'']
      Map.empty example_juliabundle)) = Inl (EasyBuildError ''Julia not included as dependency!'')"
    by simp
  ultimately show ?thesis by simp
qed

section \<open>JuliaBundle.make_module_extra, and prepare_step against the parent's\<close>

lemma prepare_step_success_toml:
  assumes prep: "JuliaBundle_prepare_step Bundle_prepare_step roots versions mkdir self0 =
                   ((Inr (), self1), ds)"
    and v: "versions ''Julia'' = Some v"
    and sp: "split_on CHR ''.'' v = major # minor # rest"
  shows "julia_project_toml self1 =
           Some (os_path_join ''environments'' [''v'' @ major @ ''.'' @ minor, ''Project.toml''])"
proof -
  obtain r s where p: "Bundle_prepare_step self0 = (r, s)"
    by (cases "Bundle_prepare_step self0")
  show ?thesis
  proof (cases r)
    case (Inl e)
    with p prep show ?thesis
      using prepare_step_parent_raises
        [where Bundle_prepare_step = Bundle_prepare_step and self = self0 and roots = roots
           and versions = versions and mkdir = mkdir]
      by simp
  next
    case (Inr u)
    show ?thesis
    proof (cases "roots ''Julia''")
      case None
      with p Inr prep show ?thesis
        using prepare_step_no_julia
          [where Bundle_prepare_step = Bundle_prepare_step and self = self0 and roots = roots
             and versions = versions and mkdir = mkdir]
        by simp
    next
      case (Some root)
      from p Inr have p': "Bundle_prepare_step self0 = (Inr u, s)" by simp
      from prep show ?thesis
        unfolding prepare_step_two_components
          [where Bundle_prepare_step = Bundle_prepare_step and self = self0 and roots = roots
             and versions = versions, OF p' Some v sp]
          Let_def
        by (auto split: option.splits)
    qed
  qed
qed

text \<open>
  Claim C6. On an object whose \<open>julia_project_toml\<close> is the one \<open>prepare_step\<close> has set
  for a Julia version \<open>major.minor\<close>, and when the parent's \<open>make_module_extra\<close> and the
  two calls of \<open>append_paths\<close> return and the table of soft-initialisation snippets has
  an entry for the syntax of the module generator (if it has one), \<open>make_module_extra\<close>
  returns the parent's text followed, in this order, by the snippet for the syntax (if
  one is set), by the append of the empty relative path (the installation directory)
  to \<open>JULIA_DEPOT_PATH\<close>, and by the append of the project file to \<open>JULIA_LOAD_PATH\<close>.
  The project file is the join of \<open>environments\<close>, \<open>v<major>.<minor>\<close> and
  \<open>Project.toml\<close>, which is the text \<open>environments/v<major>.<minor>/Project.toml\<close> unless
  \<open>minor\<close> ends with a separator.
\<close>

theorem make_module_extra_julia_paths:
  assumes prep: "JuliaBundle_prepare_step Bundle_prepare_step roots versions mkdir self0 =
                   ((Inr (), self1), ds)"
    and v: "versions ''Julia'' = Some v"
    and sp: "split_on CHR ''.'' v = major # minor # rest"
    and same: "julia_project_toml self = julia_project_toml self1"
    and parent: "Bundle_make_module_extra self = Inr base"
    and syn: "truthy SYNTAX \<longrightarrow> JULIA_PATHS_SOFT_INIT (fstr SYNTAX) = Some snippet"
    and depot: "append_paths ''JULIA_DEPOT_PATH'' [[]] = Inr depot"
    and load: "append_paths ''JULIA_LOAD_PATH''
                 [os_path_join ''environments'' [''v'' @ major @ ''.'' @ minor, ''Project.toml'']] =
               Inr load"
  shows "JuliaBundle_make_module_extra Bundle_make_module_extra SYNTAX JULIA_PATHS_SOFT_INIT
           append_paths self =
         Inr (base @ (if truthy SYNTAX then snippet else []) @ depot @ load) \<and>
         ((minor = [] \<or> last minor \<noteq> sep) \<longrightarrow>
            os_path_join ''environments'' [''v'' @ major @ ''.'' @ minor, ''Project.toml''] =
            ''environments/v'' @ major @ ''.'' @ minor @ ''/Project.toml'')"
proof -
  have toml: "julia_project_toml self =
           Some (os_path_join ''environments'' [''v'' @ major @ ''.'' @ minor, ''Project.toml''])"
    using prepare_step_success_toml [OF prep v sp] same by simp
  have "JuliaBundle_make_module_extra Bundle_make_module_extra SYNTAX JULIA_PATHS_SOFT_INIT
           append_paths self =
         Inr (base @ (if truthy SYNTAX then snippet else []) @ depot @ load)"
    using parent syn depot load toml
    by (simp add: JuliaBundle_make_module_extra_def)
  moreover have "(minor = [] \<or> last minor \<noteq> sep) \<longrightarrow>
            os_path_join ''environments'' [''v'' @ major @ ''.'' @ minor, ''Project.toml''] =
            ''environments/v'' @ major @ ''.'' @ minor @ ''/Project.toml''"
    unfolding project_toml_eq by (auto simp: sep_def)
  ultimately show ?thesis by blast
qed

theorem make_module_extra_julia_paths_witness:
  "JuliaBundle_make_module_extra (\<lambda>self. Inr (''-- '' @ jname self @ '';''))
     (Some ''Lua'') [''Lua'' \<mapsto> ''init-lua;'', ''Tcl'' \<mapsto> ''init-tcl;'']
     (\<lambda>var paths. Inr (''append '' @ var @ '' '' @ concat paths @ '';''))
     (example_juliabundle
         \<lparr>julia_project_toml := Some ''environments/v1.9/Project.toml'',
          julia_project_env := Some ''/opt/jb/environments/v1.9''\<rparr>) =
   Inr (''-- JuliaBundle;init-lua;append JULIA_DEPOT_PATH ;'' @
        ''append JULIA_LOAD_PATH environments/v1.9/Project.toml;'')"
proof -
  let ?self1 = "example_juliabundle
         \<lparr>julia_project_toml := Some ''environments/v1.9/Project.toml'',
          julia_project_env := Some ''/opt/jb/environments/v1.9''\<rparr>"
  have prep: "JuliaBundle_prepare_step (Pair (Inr ())) [''Julia'' \<mapsto> ''/opt/julia'']
      [''Julia'' \<mapsto> ''1.9.3''] Map.empty example_juliabundle =
     ((Inr (), ?self1), [''/opt/jb/environments/v1.9''])"
    by (simp add: JuliaBundle_prepare_step_def os_path_join_def join_step_def sep_def
          os_path_dirname_def rstrip_sep_def Let_def)
  have sp: "split_on CHR ''.'' ''1.9.3'' = ''1'' # ''9'' # [''3'']"
    by simp
  have j: "os_path_join ''environments'' [''v'' @ ''1'' @ ''.'' @ ''9'', ''Project.toml''] =
           ''environments/v1.9/Project.toml''"
    by (simp add: os_path_join_def join_step_def sep_def)
  from make_module_extra_julia_paths
    [where Bundle_prepare_step = "Pair (Inr ())" and roots = "[''Julia'' \<mapsto> ''/opt/julia'']"
       and versions = "[''Julia'' \<mapsto> ''1.9.3'']" and mkdir = Map.empty
       and ?self0.0 = example_juliabundle and ?self1.0 = ?self1
       and ds = "[''/opt/jb/environments/v1.9'']" and v = "''1.9.3''"
       and major = "''1''" and minor = "''9''" and rest = "[''3'']" and self = ?self1
       and Bundle_make_module_extra = "\<lambda>self. Inr (''-- '' @ jname self @ '';'')"
       and base = "''-- JuliaBundle;''" and SYNTAX = "Some ''Lua''"
       and JULIA_PATHS_SOFT_INIT = "[''Lua'' \<mapsto> ''init-lua;'', ''Tcl'' \<mapsto> ''init-tcl;'']"
       and snippet = "''init-lua;''"
       and append_paths = "\<lambda>var paths. Inr (''append '' @ var @ '' '' @ concat paths @ '';'')"
       and depot = "''append JULIA_DEPOT_PATH ;''"
       and load = "''append JULIA_LOAD_PATH environments/v1.9/Project.toml;''",
     OF prep _ sp]
  show ?thesis
    using j by simp
qed

text \<open>
  Claim C3 says that \<open>prepare_step\<close> is not overridden, so that \<open>JuliaBundle\<close> prepares
  exactly as \<open>Bundle\<close> does. It does not: with a parent step that returns normally and
  no Julia among the dependencies, \<open>JuliaBundle.prepare_step\<close> raises.
\<close>

theorem prepare_step_not_parent_counterexample:
  "fst (JuliaBundle_prepare_step (Pair (Inr ())) Map.empty Map.empty Map.empty
          example_juliabundle) \<noteq>
   propagate (Pair (Inr ()) example_juliabundle)"
  by (simp add: JuliaBundle_prepare_step_def propagate_def)

lemma prepare_step_after_parent:
  "(Bundle_prepare_step self = (Inl e, self1) \<longrightarrow>
      JuliaBundle_prepare_step Bundle_prepare_step roots versions mkdir self =
        (propagate (Bundle_prepare_step self), [])) \<and>
   (Bundle_prepare_step self = (Inr (), self1) \<longrightarrow>
      (snd (fst (JuliaBundle_prepare_step Bundle_prepare_step roots versions mkdir self)))
        \<lparr>julia_project_toml := julia_project_toml self1,
         julia_project_env := julia_project_env self1\<rparr> = self1 \<and>
      (fst (fst (JuliaBundle_prepare_step Bundle_prepare_step roots versions mkdir self)) = Inr ()
         \<longrightarrow> roots ''Julia'' \<noteq> None))"
proof (intro conjI impI)
  assume "Bundle_prepare_step self = (Inl e, self1)"
  then show "JuliaBundle_prepare_step Bundle_prepare_step roots versions mkdir self =
        (propagate (Bundle_prepare_step self), [])"
    by (simp add: JuliaBundle_prepare_step_def propagate_def)
next
  assume p: "Bundle_prepare_step self = (Inr (), self1)"
  then show "(snd (fst (JuliaBundle_prepare_step Bundle_prepare_step roots versions mkdir self)))
        \<lparr>julia_project_toml := julia_project_toml self1,
         julia_project_env := julia_project_env self1\<rparr> = self1"
    by (simp add: JuliaBundle_prepare_step_def Let_def split: option.splits list.splits)
next
  assume p: "Bundle_prepare_step self = (Inr (), self1)"
    and ok: "fst (fst (JuliaBundle_prepare_step Bundle_prepare_step roots versions mkdir self)) =
             Inr ()"
  show "roots ''Julia'' \<noteq> None"
  proof
    assume "roots ''Julia'' = None"
    with p ok show False
      by (simp add: JuliaBundle_prepare_step_def)
  qed
qed

text \<open>
  Claim C3, amended. Both easyblocks override only lifecycle hook methods of the generic
  build-step framework: \<open>EB_NEURON\<close> only methods among \<open>extra_options\<close>, \<open>__init__\<close>,
  \<open>configure_step\<close>, \<open>sanity_check_step\<close>, \<open>make_module_extra\<close> and \<open>make_module_step\<close>,
  and \<open>JuliaBundle\<close> only methods among these and \<open>prepare_step\<close>, which it does override
  (and \<open>EB_NEURON\<close> does not). Every method a class does not override is the
  corresponding method of its parent class. \<open>JuliaBundle.prepare_step\<close> runs the parent's
  step first. When that step raises, it ends exactly as the parent's step and does
  nothing more. When that step returns normally, it leaves the object as the parent's
  step left it but for the attributes \<open>julia_project_toml\<close> and \<open>julia_project_env\<close>, and
  it returns normally only if Julia is among the dependencies.
\<close>

theorem overridden_hooks_and_prepare_step:
  "set EB_NEURON_defines \<subseteq>
     {''extra_options'', ''__init__'', ''configure_step'', ''sanity_check_step'',
      ''make_module_extra'', ''make_module_step''} \<and>
   set JuliaBundle_defines \<subseteq>
     {''extra_options'', ''__init__'', ''configure_step'', ''sanity_check_step'',
      ''make_module_extra'', ''make_module_step'', ''prepare_step''} \<and>
   ''prepare_step'' \<in> set JuliaBundle_defines \<and>
   ''prepare_step'' \<notin> set EB_NEURON_defines \<and>
   (name \<notin> set EB_NEURON_defines \<longrightarrow>
      lookup_method EB_NEURON_defines own parent name = parent name) \<and>
   (name \<notin> set JuliaBundle_defines \<longrightarrow>
      lookup_method JuliaBundle_defines own parent name = parent name) \<and>
   lookup_method JuliaBundle_defines own parent ''prepare_step'' = own ''prepare_step'' \<and>
   (Bundle_prepare_step self = (Inl e, self1) \<longrightarrow>
      JuliaBundle_prepare_step Bundle_prepare_step roots versions mkdir self =
        (propagate (Bundle_prepare_step self), [])) \<and>
   (Bundle_prepare_step self = (Inr (), self1) \<longrightarrow>
      (snd (fst (JuliaBundle_prepare_step Bundle_prepare_step roots versions mkdir self)))
        \<lparr>julia_project_toml := julia_project_toml self1,
         julia_project_env := julia_project_env self1\<rparr> = self1 \<and>
      (fst (fst (JuliaBundle_prepare_step Bundle_prepare_step roots versions mkdir self)) = Inr ()
         \<longrightarrow> roots ''Julia'' \<noteq> None))"
proof -
  have "set EB_NEURON_defines \<subseteq>
     {''extra_options'', ''__init__'', ''configure_step'', ''sanity_check_step'',
      ''make_module_extra'', ''make_module_step''}"
    by (simp add: EB_NEURON_defines_def)
  moreover have "set JuliaBundle_defines \<subseteq>
     {''extra_options'', ''__init__'', ''configure_step'', ''sanity_check_step'',
      ''make_module_extra'', ''make_module_step'', ''prepare_step''}"
    by (simp add: JuliaBundle_defines_def)
  moreover have "''prepare_step'' \<in> set JuliaBundle_defines"
    by (simp add: JuliaBundle_defines_def)
  moreover have "''prepare_step'' \<notin> set EB_NEURON_defines"
    by (simp add: EB_NEURON_defines_def)
  moreover have "name \<notin> set EB_NEURON_defines \<longrightarrow>
      lookup_method EB_NEURON_defines own parent name = parent name"
    by (simp add: lookup_method_def)
  moreover have "name \<notin> set JuliaBundle_defines \<longrightarrow>
      lookup_method JuliaBundle_defines own parent name = parent name"
    by (simp add: lookup_method_def)
  moreover have "lookup_method JuliaBundle_defines own parent ''prepare_step'' =
      own ''prepare_step''"
    by (simp add: lookup_method_def JuliaBundle_defines_def)
  moreover note prepare_step_after_parent
    [where Bundle_prepare_step = Bundle_prepare_step and self = self and e = e
       and ?self1.0 = self1 and roots = roots and versions = versions and mkdir = mkdir]
  ultimately show ?thesis
    by (intro conjI) blast+
qed

theorem overridden_hooks_and_prepare_step_witness:
  "lookup_method JuliaBundle_defines (\<lambda>n. ''JuliaBundle.'' @ n) (\<lambda>n. ''Bundle.'' @ n)
     ''build_step'' = ''Bundle.build_step'' \<and>
   lookup_method EB_NEURON_defines (\<lambda>n. ''EB_NEURON.'' @ n) (\<lambda>n. ''CMakeMake.'' @ n)
     ''prepare_step'' = ''CMakeMake.prepare_step'' \<and>
   lookup_method JuliaBundle_defines (\<lambda>n. ''JuliaBundle.'' @ n) (\<lambda>n. ''Bundle.'' @ n)
     ''prepare_step'' = ''JuliaBundle.prepare_step'' \<and>
   JuliaBundle_prepare_step (Pair (Inl (EasyBuildErr ''no toolchain''))) Map.empty Map.empty
     Map.empty example_juliabundle =
     ((Inl (Propagated (EasyBuildErr ''no toolchain'')), example_juliabundle), []) \<and>
   (snd (fst (JuliaBundle_prepare_step (Pair (Inr ())) [''Julia'' \<mapsto> ''/opt/julia'']
      [''Julia'' \<mapsto> ''1.9.3''] Map.empty example_juliabundle)))
        \<lparr>julia_project_toml := None, julia_project_env := None\<rparr> = example_juliabundle"
proof -
  have a: "Pair (Inl (EasyBuildErr ''no toolchain'')) example_juliabundle =
           (Inl (EasyBuildErr ''no toolchain''), example_juliabundle)"
    and b: "Pair (Inr ()) example_juliabundle = (Inr (), example_juliabundle)"
    by simp_all
  have n: "''build_step'' \<notin> set JuliaBundle_defines"
    by (simp add: JuliaBundle_defines_def)
  from overridden_hooks_and_prepare_step
    [where name = "''build_step''" and own = "\<lambda>n. ''JuliaBundle.'' @ n"
       and parent = "\<lambda>n. ''Bundle.'' @ n"
       and Bundle_prepare_step = "Pair (Inl (EasyBuildErr ''no toolchain''))"
       and self = example_juliabundle and ?self1.0 = example_juliabundle
       and e = "EasyBuildErr ''no toolchain''" and roots = Map.empty and versions = Map.empty
       and mkdir = Map.empty] a n
  have 1: "lookup_method JuliaBundle_defines (\<lambda>n. ''JuliaBundle.'' @ n) (\<lambda>n. ''Bundle.'' @ n)
       ''build_step'' = ''Bundle.build_step''"
    and 2: "lookup_method JuliaBundle_defines (\<lambda>n. ''JuliaBundle.'' @ n) (\<lambda>n. ''Bundle.'' @ n)
       ''prepare_step'' = ''JuliaBundle.prepare_step''"
    and 3: "JuliaBundle_prepare_step (Pair (Inl (EasyBuildErr ''no toolchain''))) Map.empty
       Map.empty Map.empty example_juliabundle =
       ((Inl (Propagated (EasyBuildErr ''no toolchain'')), example_juliabundle), [])"
    by (simp_all add: propagate_def)
  from overridden_hooks_and_prepare_step
    [where name = "''prepare_step''" and own = "\<lambda>n. ''EB_NEURON.'' @ n"
       and parent = "\<lambda>n. ''CMakeMake.'' @ n"
       and Bundle_prepare_step = "Pair (Inr ())"
       and self = example_juliabundle and ?self1.0 = example_juliabundle
       and roots = "[''Julia'' \<mapsto> ''/opt/julia'']" and versions = "[''Julia'' \<mapsto> ''1.9.3'']"
       and mkdir = Map.empty] b
  have 4: "lookup_method EB_NEURON_defines (\<lambda>n. ''EB_NEURON.'' @ n) (\<lambda>n. ''CMakeMake.'' @ n)
       ''prepare_step'' = ''CMakeMake.prepare_step''"
    and 5: "(snd (fst (JuliaBundle_prepare_step (Pair (Inr ())) [''Julia'' \<mapsto> ''/opt/julia'']
      [''Julia'' \<mapsto> ''1.9.3''] Map.empty example_juliabundle)))
        \<lparr>julia_project_toml := None, julia_project_env := None\<rparr> = example_juliabundle"
    by simp_all
  from 1 2 3 4 5 show ?thesis by simp
qed

section \<open>The matcher finds what the patterns denote\<close>

lemma last_char_simps [simp]:
  "last_char prev [] = prev"
  "last_char prev (c # w) = last_char (Some c) w"
  by (simp_all add: last_char_def)

lemma re_denotes_ItemI:
  "list_all (atom_ok a) w \<Longrightarrow> quant_ok q w \<Longrightarrow> re_denotes r (last_char prev w) m' \<Longrightarrow>
   re_denotes (Item a q # r) prev (w @ m')"
  by auto

lemma re_denotes_ItemE:
  assumes "re_denotes (Item a q # r) prev m"
  obtains w m' where "m = w @ m'" "list_all (atom_ok a) w" "quant_ok q w"
    "re_denotes r (last_char prev w) m'"
  using assms by auto

declare re_denotes.simps(3) [simp del]

lemma re_denotes_Star_Nil: "re_denotes r prev m \<Longrightarrow> re_denotes (Item a Star # r) prev m"
  using re_denotes_ItemI [of a "[]" Star r prev m] by simp

lemma re_denotes_Star_Cons:
  assumes "atom_ok a c" "re_denotes (Item a Star # r) (Some c) m" "q = Star \<or> q = Plus"
  shows "re_denotes (Item a q # r) prev (c # m)"
proof -
  from assms(2) obtain w m' where w: "m = w @ m'" "list_all (atom_ok a) w"
    "re_denotes r (last_char (Some c) w) m'"
    by (rule re_denotes_ItemE)
  from assms(3) have "quant_ok q (c # w)" by auto
  with w assms(1) have "re_denotes (Item a q # r) prev ((c # w) @ m')"
    by (intro re_denotes_ItemI) simp_all
  with w show ?thesis by simp
qed

lemma re_denotes_Star_cases:
  assumes "re_denotes (Item a Star # r) prev m"
  shows "re_denotes r prev m \<or>
         (\<exists>c m'. m = c # m' \<and> atom_ok a c \<and> re_denotes (Item a Star # r) (Some c) m')"
proof -
  from assms obtain w m' where w: "m = w @ m'" "list_all (atom_ok a) w"
    "re_denotes r (last_char prev w) m'"
    by (rule re_denotes_ItemE)
  show ?thesis
  proof (cases w)
    case Nil
    with w show ?thesis by simp
  next
    case (Cons c w')
    with w have "re_denotes (Item a Star # r) (Some c) (w' @ m')"
      by (intro re_denotes_ItemI) simp_all
    with w Cons show ?thesis by auto
  qed
qed

lemma re_denotes_Plus_cases:
  assumes "re_denotes (Item a Plus # r) prev m"
  shows "\<exists>c m'. m = c # m' \<and> atom_ok a c \<and> re_denotes (Item a Star # r) (Some c) m'"
proof -
  from assms obtain w m' where w: "m = w @ m'" "list_all (atom_ok a) w" "quant_ok Plus w"
    "re_denotes r (last_char prev w) m'"
    by (rule re_denotes_ItemE)
  then obtain c w' where Cons: "w = c # w'" by (cases w) auto
  with w have "re_denotes (Item a Star # r) (Some c) (w' @ m')"
    by (intro re_denotes_ItemI) simp_all
  with w Cons show ?thesis by auto
qed

lemma re_denotes_One_iff:
  "re_denotes (Item a One # r) prev m =
     (\<exists>c m'. m = c # m' \<and> atom_ok a c \<and> re_denotes r (Some c) m')"
proof
  assume "re_denotes (Item a One # r) prev m"
  then obtain w m' where w: "m = w @ m'" "list_all (atom_ok a) w" "quant_ok One w"
    "re_denotes r (last_char prev w) m'"
    by (rule re_denotes_ItemE)
  then obtain c where "w = [c]" by (cases w) auto
  with w show "\<exists>c m'. m = c # m' \<and> atom_ok a c \<and> re_denotes r (Some c) m'"
    by auto
next
  assume "\<exists>c m'. m = c # m' \<and> atom_ok a c \<and> re_denotes r (Some c) m'"
  then obtain c m' where m: "m = c # m'" "atom_ok a c" "re_denotes r (Some c) m'" by auto
  then have "re_denotes (Item a One # r) prev ([c] @ m')"
    by (intro re_denotes_ItemI) simp_all
  with m show "re_denotes (Item a One # r) prev m" by simp
qed

definition matches_prefix :: "re_tok list \<Rightarrow> char option \<Rightarrow> string \<Rightarrow> bool" where
  "matches_prefix p prev s = (\<exists>m rest. s = m @ rest \<and> re_denotes p prev m)"

lemma matches_prefixI: "re_denotes p prev m \<Longrightarrow> matches_prefix p prev (m @ rest)"
  unfolding matches_prefix_def by blast

lemma matches_prefixE:
  assumes "matches_prefix p prev s"
  obtains m rest where "s = m @ rest" "re_denotes p prev m"
  using assms unfolding matches_prefix_def by blast

lemma matches_prefix_Nil [simp]: "matches_prefix [] prev s"
  using matches_prefixI [of "[]" prev "[]" s] by simp

lemma matches_prefix_Bol [simp]:
  "matches_prefix (Bol # r) prev s = ((prev = None \<or> prev = Some nl) \<and> matches_prefix r prev s)"
  by (auto simp: matches_prefix_def)

lemma matches_prefix_step:
  assumes "atom_ok a c" "matches_prefix r' (Some c) cs"
    and step: "\<And>m. re_denotes r' (Some c) m \<Longrightarrow> re_denotes p prev (c # m)"
  shows "matches_prefix p prev (c # cs)"
proof -
  from assms(2) obtain m rest where "cs = m @ rest" "re_denotes r' (Some c) m"
    by (rule matches_prefixE)
  with step have "c # cs = (c # m) @ rest" "re_denotes p prev (c # m)" by simp_all
  then show ?thesis using matches_prefixI by metis
qed

lemma matches_prefix_One:
  "matches_prefix (Item a One # r) prev s =
     (case s of [] \<Rightarrow> False | c # cs \<Rightarrow> atom_ok a c \<and> matches_prefix r (Some c) cs)"
proof
  assume "matches_prefix (Item a One # r) prev s"
  then obtain m rest where m: "s = m @ rest" "re_denotes (Item a One # r) prev m"
    by (rule matches_prefixE)
  then obtain c m' where c: "m = c # m'" "atom_ok a c" "re_denotes r (Some c) m'"
    unfolding re_denotes_One_iff by blast
  with m have "s = c # (m' @ rest)" by simp
  with c matches_prefixI [of r "Some c" m' rest]
  show "case s of [] \<Rightarrow> False | c # cs \<Rightarrow> atom_ok a c \<and> matches_prefix r (Some c) cs"
    by simp
next
  assume "case s of [] \<Rightarrow> False | c # cs \<Rightarrow> atom_ok a c \<and> matches_prefix r (Some c) cs"
  then obtain c cs where s: "s = c # cs" "atom_ok a c" "matches_prefix r (Some c) cs"
    by (auto split: list.splits)
  have "matches_prefix (Item a One # r) prev (c # cs)"
    using s(2,3)
  proof (rule matches_prefix_step)
    fix m assume "re_denotes r (Some c) m"
    with s(2) show "re_denotes (Item a One # r) prev (c # m)"
      unfolding re_denotes_One_iff by blast
  qed
  with s show "matches_prefix (Item a One # r) prev s" by simp
qed

lemma matches_prefix_Star:
  "matches_prefix (Item a Star # r) prev s =
     (matches_prefix r prev s \<or>
      (case s of [] \<Rightarrow> False
       | c # cs \<Rightarrow> atom_ok a c \<and> matches_prefix (Item a Star # r) (Some c) cs))"
proof
  assume "matches_prefix (Item a Star # r) prev s"
  then obtain m rest where m: "s = m @ rest" "re_denotes (Item a Star # r) prev m"
    by (rule matches_prefixE)
  from re_denotes_Star_cases [OF m(2)]
  show "matches_prefix r prev s \<or>
      (case s of [] \<Rightarrow> False
       | c # cs \<Rightarrow> atom_ok a c \<and> matches_prefix (Item a Star # r) (Some c) cs)"
  proof
    assume "re_denotes r prev m"
    with m(1) show ?thesis using matches_prefixI by metis
  next
    assume "\<exists>c m'. m = c # m' \<and> atom_ok a c \<and> re_denotes (Item a Star # r) (Some c) m'"
    then obtain c m' where c: "m = c # m'" "atom_ok a c"
      "re_denotes (Item a Star # r) (Some c) m'"
      by blast
    with m have "s = c # (m' @ rest)" by simp
    with c matches_prefixI [of "Item a Star # r" "Some c" m' rest]
    show ?thesis by simp
  qed
next
  assume a: "matches_prefix r prev s \<or>
      (case s of [] \<Rightarrow> False
       | c # cs \<Rightarrow> atom_ok a c \<and> matches_prefix (Item a Star # r) (Some c) cs)"
  show "matches_prefix (Item a Star # r) prev s"
  proof (cases "matches_prefix r prev s")
    case True
    then obtain m rest where "s = m @ rest" "re_denotes r prev m"
      by (rule matches_prefixE)
    then show ?thesis
      using matches_prefixI [of "Item a Star # r" prev m rest] re_denotes_Star_Nil by simp
  next
    case False
    with a obtain c cs where s: "s = c # cs" "atom_ok a c"
      "matches_prefix (Item a Star # r) (Some c) cs"
      by (auto split: list.splits)
    have "matches_prefix (Item a Star # r) prev (c # cs)"
      using s(2,3)
    proof (rule matches_prefix_step)
      fix m assume "re_denotes (Item a Star # r) (Some c) m"
      with s(2) show "re_denotes (Item a Star # r) prev (c # m)"
        by (intro re_denotes_Star_Cons) simp_all
    qed
    with s show ?thesis by simp
  qed
qed

lemma matches_prefix_Plus:
  "matches_prefix (Item a Plus # r) prev s =
     (case s of [] \<Rightarrow> False
      | c # cs \<Rightarrow> atom_ok a c \<and> matches_prefix (Item a Star # r) (Some c) cs)"
proof
  assume "matches_prefix (Item a Plus # r) prev s"
  then obtain m rest where m: "s = m @ rest" "re_denotes (Item a Plus # r) prev m"
    by (rule matches_prefixE)
  from re_denotes_Plus_cases [OF m(2)]
  obtain c m' where c: "m = c # m'" "atom_ok a c" "re_denotes (Item a Star # r) (Some c) m'"
    by blast
  with m have "s = c # (m' @ rest)" by simp
  with c matches_prefixI [of "Item a Star # r" "Some c" m' rest]
  show "case s of [] \<Rightarrow> False
       | c # cs \<Rightarrow> atom_ok a c \<and> matches_prefix (Item a Star # r) (Some c) cs"
    by simp
next
  assume "case s of [] \<Rightarrow> False
       | c # cs \<Rightarrow> atom_ok a c \<and> matches_prefix (Item a Star # r) (Some c) cs"
  then obtain c cs where s: "s = c # cs" "atom_ok a c"
      "matches_prefix (Item a Star # r) (Some c) cs"
    by (auto split: list.splits)
  have "matches_prefix (Item a Plus # r) prev (c # cs)"
    using s(2,3)
  proof (rule matches_prefix_step)
    fix m assume "re_denotes (Item a Star # r) (Some c) m"
    with s(2) show "re_denotes (Item a Plus # r) prev (c # m)"
      by (intro re_denotes_Star_Cons) simp_all
  qed
  with s show "matches_prefix (Item a Plus # r) prev s" by simp
qed

lemma re_match_here_denotes:
  "re_match_here p prev s = matches_prefix p prev s"
proof (induction p prev s rule: re_match_here.induct)
  case (1 prev s)
  show ?case by simp
next
  case (2 r prev s)
  then show ?case by simp
next
  case (3 a r prev s)
  then show ?case
    by (simp add: matches_prefix_One split: list.splits)
next
  case (4 a r prev s)
  then show ?case
    by (subst matches_prefix_Star) (simp split: list.splits)
next
  case (5 a r prev s)
  then show ?case
    by (subst matches_prefix_Plus) (simp split: list.splits)
qed

lemma re_search_from_denotes:
  "re_search_from p prev s =
     (\<exists>pre m post. s = pre @ m @ post \<and> re_denotes p (last_char prev pre) m)"
proof (induction s arbitrary: prev)
  case Nil
  show ?case
    by (simp add: re_match_here_denotes matches_prefix_def)
next
  case (Cons c cs)
  have "re_search_from p prev (c # cs) =
          (matches_prefix p prev (c # cs) \<or>
           (\<exists>pre m post. cs = pre @ m @ post \<and> re_denotes p (last_char (Some c) pre) m))"
    by (simp add: re_match_here_denotes Cons.IH)
  also have "\<dots> = (\<exists>pre m post. c # cs = pre @ m @ post \<and> re_denotes p (last_char prev pre) m)"
  proof
    assume "matches_prefix p prev (c # cs) \<or>
           (\<exists>pre m post. cs = pre @ m @ post \<and> re_denotes p (last_char (Some c) pre) m)"
    then show "\<exists>pre m post. c # cs = pre @ m @ post \<and> re_denotes p (last_char prev pre) m"
    proof
      assume "matches_prefix p prev (c # cs)"
      then obtain m rest where "c # cs = [] @ m @ rest" "re_denotes p (last_char prev []) m"
        by (auto simp: matches_prefix_def)
      then show ?thesis by blast
    next
      assume "\<exists>pre m post. cs = pre @ m @ post \<and> re_denotes p (last_char (Some c) pre) m"
      then obtain pre m post where "c # cs = (c # pre) @ m @ post"
        "re_denotes p (last_char prev (c # pre)) m"
        by auto
      then show ?thesis by blast
    qed
  next
    assume "\<exists>pre m post. c # cs = pre @ m @ post \<and> re_denotes p (last_char prev pre) m"
    then obtain pre m post where pm: "c # cs = pre @ m @ post"
      "re_denotes p (last_char prev pre) m"
      by blast
    show "matches_prefix p prev (c # cs) \<or>
           (\<exists>pre m post. cs = pre @ m @ post \<and> re_denotes p (last_char (Some c) pre) m)"
    proof (cases pre)
      case Nil
      with pm show ?thesis by (auto simp: matches_prefix_def)
    next
      case (Cons c' pre')
      with pm have "cs = pre' @ m @ post" "re_denotes p (last_char (Some c) pre') m"
        by auto
      then show ?thesis by blast
    qed
  qed
  finally show ?case .
qed

text \<open>
  A search succeeds exactly when some part of the string, the anchor read against the
  character before that part, is denoted by the pattern.
\<close>

lemma re_search_denotes:
  "re_search p s =
     (\<exists>pre m post. s = pre @ m @ post \<and> re_denotes p (last_char None pre) m)"
  by (simp add: re_search_def re_search_from_denotes)

section \<open>EB_NEURON.sanity_check_step\<close>

lemma re_match_here_literal:
  "re_match_here (re_literal p) prev s = prefix p s"
proof (induction p arbitrary: prev s)
  case Nil
  then show ?case by (simp add: re_literal_def)
next
  case (Cons a p)
  then show ?case
    by (cases s) (auto simp: re_literal_def)
qed

lemma re_search_from_literal:
  "re_search_from (re_literal p) prev s = sublist p s"
proof (induction s arbitrary: prev)
  case Nil
  then show ?case by (simp add: re_match_here_literal)
next
  case (Cons c cs)
  then show ?case
    by (simp add: re_match_here_literal sublist_Cons_right)
qed

lemma re_search_literal: "re_search (re_literal p) s = sublist p s"
  by (simp add: re_search_def re_search_from_literal)

lemma hello_ranks_valid_iff:
  "hello_ranks_valid i nproc out =
     (\<forall>j. i \<le> j \<and> j < nproc \<longrightarrow>
          sublist (''I am '' @ format_d j @ '' of '' @ format_d nproc) out)"
proof (induction i nproc out rule: hello_ranks_valid.induct)
  case (1 i nproc out)
  show ?case
  proof (cases "i < nproc")
    case False
    then show ?thesis by (subst hello_ranks_valid.simps) auto
  next
    case True
    show ?thesis
    proof (cases "sublist (''I am '' @ format_d i @ '' of '' @ format_d nproc) out")
      case False
      with True show ?thesis
        by (subst hello_ranks_valid.simps) (auto simp: re_search_literal)
    next
      case s: True
      have "hello_ranks_valid i nproc out = hello_ranks_valid (i + 1) nproc out"
        using True s by (subst hello_ranks_valid.simps) (simp add: re_search_literal)
      also have "\<dots> = (\<forall>j. i + 1 \<le> j \<and> j < nproc \<longrightarrow>
          sublist (''I am '' @ format_d j @ '' of '' @ format_d nproc) out)"
        using "1.IH" True s by (simp add: re_search_literal)
      also have "\<dots> = (\<forall>j. i \<le> j \<and> j < nproc \<longrightarrow>
          sublist (''I am '' @ format_d j @ '' of '' @ format_d nproc) out)"
      proof -
        have "\<And>j. i \<le> j \<longleftrightarrow> j = i \<or> i + 1 \<le> j" by auto
        with s show ?thesis by metis
      qed
      finally show ?thesis .
    qed
  qed
qed

lemma and_then_simps [simp]:
  "and_then (Some e, t) b = (Some e, t)"
  "and_then (None, t) b = (fst b, t @ snd b)"
  by (simp_all add: and_then_def)

lemma sanity_check_step_reached:
  assumes "CMakeMake_sanity_check_step env
             (sanity_custom_paths lt (get_shared_lib_ext env) self) self = (Inr (), self1)"
    and "load_fake_module env = Inr d \<or> load_fake_module env = Inl (EasyBuildErr m)"
  shows "\<exists>f. EB_NEURON_sanity_check_step env lt self =
           and_then (neurondemo_test (shell env))
             (and_then (parallel_hello_test env self1)
                (and_then (python_test (shell env) self1) (cleanup env f)))"
  using assms
  by (auto simp: EB_NEURON_sanity_check_step_def Let_def try_load_fake_module_def)

lemma neurondemo_test_eq:
  "neurondemo_test sh =
     (if exit_code (sh ''neurondemo'' (Some demo_input)) \<noteq> 0 \<or>
         \<not> re_search demo_regexp (cmd_output (sh ''neurondemo'' (Some demo_input)))
      then Some (EasyBuildError ''Validation of NEURON demo run failed.'')
      else None,
      [RunShellCmd ''neurondemo'' (Some demo_input)])"
  by (simp add: neurondemo_test_def run_shell_cmd_def Let_def)

lemma except_OSError_not_validation:
  "except_OSError e \<noteq> EasyBuildError ''Validation of NEURON demo run failed.''"
  "except_OSError e \<noteq> EasyBuildError ''Validation of parallel hello world run failed.''"
  by (cases e; simp add: except_OSError_def)+

lemma parallel_hello_test_not_demo:
  "fst (parallel_hello_test env self) \<noteq>
     Some (EasyBuildError ''Validation of NEURON demo run failed.'')"
  by (simp add: parallel_hello_test_def Let_def run_shell_cmd_def except_OSError_not_validation
        split: sum.splits option.splits)

lemma python_test_propagates:
  "fst (python_test sh self) = None \<or> (\<exists>e. fst (python_test sh self) = Some (Propagated e))"
  by (simp add: python_test_def Let_def run_shell_cmd_def)

lemma cleanup_no_EasyBuildError:
  "fst (cleanup env f) \<noteq> Some (EasyBuildError msg)"
  by (auto simp: cleanup_def split: option.splits)

lemma after_demo_not_demo:
  "fst (and_then (parallel_hello_test env self)
          (and_then (python_test sh self) (cleanup env f))) \<noteq>
     Some (EasyBuildError ''Validation of NEURON demo run failed.'')"
proof -
  obtain r1 t1 where p: "parallel_hello_test env self = (r1, t1)"
    by (cases "parallel_hello_test env self")
  obtain r2 t2 where q: "python_test sh self = (r2, t2)"
    by (cases "python_test sh self")
  from parallel_hello_test_not_demo [of env self] p
  have r1: "r1 \<noteq> Some (EasyBuildError ''Validation of NEURON demo run failed.'')" by simp
  from python_test_propagates [of sh self] q
  have r2: "r2 = None \<or> (\<exists>e. r2 = Some (Propagated e))" by simp
  show ?thesis
    using r1 r2 cleanup_no_EasyBuildError [of env f] unfolding p q
    by (cases r1; cases r2) auto
qed

text \<open>The demo pattern on an output of the demo, and on outputs that must not pass.\<close>

lemma example_demo_matches:
  "re_search demo_regexp ([CHR 0x09] @ ''-65 '' @ [nl, CHR 0x09] @ ''5 '' @ [nl, CHR 0x09] @
                           ''-68.134337 '' @ [nl])"
  by code_simp

lemma example_demo_no_match: "\<not> re_search demo_regexp ''Segmentation fault''"
  by code_simp

lemma example_demo_not_at_line_start:
  "\<not> re_search demo_regexp (''oc>'' @ [CHR 0x09] @ ''-65 '' @ [nl, CHR 0x09] @ ''5 '' @
                              [nl, CHR 0x09] @ ''-68.134337 '' @ [nl])"
  by code_simp

lemma example_demo_after_prompt_line:
  "re_search demo_regexp (''oc>'' @ [nl, CHR 0x09] @ ''-65 '' @ [nl, CHR 0x09] @ ''5 '' @
                            [nl, CHR 0x09] @ ''-68.134337 '' @ [nl])"
  by code_simp

text \<open>
  Claim C1. When the parent's sanity check has returned and loading the fake module has
  returned or raised an \<open>EasyBuildError\<close> (which is caught), \<open>sanity_check_step\<close> runs
  \<open>neurondemo\<close> first, and it raises the \<open>EasyBuildError\<close> "Validation of NEURON demo run
  failed." if and only if the exit code of that command is not zero or its output has
  no match of the pattern \<open>^\s+-65\s*\n\s+5\s*\n\s+-68.134337\<close> (multiline). In
  particular no later part of the check raises this error.
\<close>

theorem sanity_check_step_demo:
  assumes parent: "CMakeMake_sanity_check_step env
             (sanity_custom_paths lt (get_shared_lib_ext env) self) self = (Inr (), self1)"
    and fake: "load_fake_module env = Inr d \<or> load_fake_module env = Inl (EasyBuildErr m)"
  shows "(fst (EB_NEURON_sanity_check_step env lt self) =
            Some (EasyBuildError ''Validation of NEURON demo run failed.'')) =
         (exit_code (shell env ''neurondemo'' (Some demo_input)) \<noteq> 0 \<or>
          \<not> re_search demo_regexp (cmd_output (shell env ''neurondemo'' (Some demo_input)))) \<and>
         prefix [RunShellCmd ''neurondemo'' (Some demo_input)]
           (snd (EB_NEURON_sanity_check_step env lt self))"
proof -
  from sanity_check_step_reached [OF parent fake]
  obtain f where R: "EB_NEURON_sanity_check_step env lt self =
           and_then (neurondemo_test (shell env))
             (and_then (parallel_hello_test env self1)
                (and_then (python_test (shell env) self1) (cleanup env f)))"
    by blast
  show ?thesis
    unfolding R neurondemo_test_eq
    using after_demo_not_demo [of env self1 "shell env" f]
    by (simp split: if_splits)
qed

theorem sanity_check_step_demo_witness:
  "fst (EB_NEURON_sanity_check_step example_env (\<lambda>a b. False) example_neuron) \<noteq>
     Some (EasyBuildError ''Validation of NEURON demo run failed.'') \<and>
   fst (EB_NEURON_sanity_check_step
          (example_env\<lparr>shell := (\<lambda>cmd stdin. \<lparr>exit_code = 139, cmd_output = ''Segmentation fault''\<rparr>)\<rparr>)
          (\<lambda>a b. False) example_neuron) =
     Some (EasyBuildError ''Validation of NEURON demo run failed.'')"
proof -
  let ?bad = "example_env\<lparr>shell := (\<lambda>cmd stdin. \<lparr>exit_code = 139, cmd_output = ''Segmentation fault''\<rparr>)\<rparr>"
  have "fst (EB_NEURON_sanity_check_step example_env (\<lambda>a b. False) example_neuron) \<noteq>
     Some (EasyBuildError ''Validation of NEURON demo run failed.'')"
    using sanity_check_step_demo
      [where env = example_env and lt = "\<lambda>a b. False" and self = example_neuron
         and ?self1.0 = example_neuron and d = "''fake module''"]
      example_demo_matches
    by simp
  moreover have "fst (EB_NEURON_sanity_check_step ?bad (\<lambda>a b. False) example_neuron) =
     Some (EasyBuildError ''Validation of NEURON demo run failed.'')"
    using sanity_check_step_demo
      [where env = ?bad and lt = "\<lambda>a b. False" and self = example_neuron
         and ?self1.0 = example_neuron and d = "''fake module''"]
    by simp
  ultimately show ?thesis by blast
qed

lemma parallel_hello_test_run:
  assumes "mpi_tests env" "getcwd env = Inr cwd"
    "chdir env (os_path_join (start_dir (cfg self)) [''src'', ''parallel'']) = None"
    "mpi_cmd_for env ''nrniv -mpi test0.hoc'' (parallel (cfg self)) = Inr cmd"
    "chdir env cwd = None"
  shows "parallel_hello_test env self =
     (if exit_code (shell env cmd None) \<noteq> 0 \<or>
         \<not> hello_ranks_valid 0 (parallel (cfg self)) (cmd_output (shell env cmd None))
      then Some (EasyBuildError ''Validation of parallel hello world run failed.'')
      else None,
      [Chdir (os_path_join (start_dir (cfg self)) [''src'', ''parallel'']),
       RunShellCmd cmd None, Chdir cwd])"
  using assms by (simp add: parallel_hello_test_def Let_def run_shell_cmd_def)

lemma parallel_hello_test_skipped:
  "\<not> mpi_tests env \<Longrightarrow> parallel_hello_test env self = (None, [])"
  by (simp add: parallel_hello_test_def)

lemma python_test_events:
  "snd (python_test sh self) =
     (if with_python self
      then [RunShellCmd (''python -c '' @ [sq] @ ''import neuron; neuron.test()'' @ [sq]) None]
      else [])"
  by (simp add: python_test_def Let_def run_shell_cmd_def)

lemma cleanup_events: "snd (cleanup env f) = []"
  by (simp add: cleanup_def split: option.splits)

lemma python_cleanup_no_EasyBuildError:
  "fst (and_then (python_test sh self) (cleanup env f)) \<noteq> Some (EasyBuildError msg)"
proof -
  obtain r2 t2 where q: "python_test sh self = (r2, t2)"
    by (cases "python_test sh self")
  from python_test_propagates [of sh self] q
  have r2: "r2 = None \<or> (\<exists>e. r2 = Some (Propagated e))" by simp
  then show ?thesis
    using cleanup_no_EasyBuildError [of env f msg] unfolding q
    by (cases r2) auto
qed

lemma python_cleanup_events:
  "snd (and_then (python_test sh self) (cleanup env f)) = snd (python_test sh self)"
  by (cases "python_test sh self"; cases "fst (python_test sh self)")
     (auto simp: cleanup_events)

text \<open>
  Claim C4. Let the sanity check have passed the demo. With \<open>mpi_tests\<close> enabled, and
  when the working directory can be read and changed and \<open>mpi_cmd_for\<close> returns the
  command line, the check runs that command, and it raises the \<open>EasyBuildError\<close>
  "Validation of parallel hello world run failed." if and only if the exit code of the
  command is not zero or, for some rank \<open>i\<close> with \<open>0 \<le> i < nproc\<close>, the output does not
  contain \<open>I am i of nproc\<close>, where \<open>nproc\<close> is the parameter \<open>parallel\<close>. With
  \<open>mpi_tests\<close> disabled the error is not raised, and the commands of the whole check are
  the demo and, when \<open>with_python\<close> holds, the Python test: nothing is run, and no
  directory is changed, for the parallel test.
\<close>

theorem sanity_check_step_parallel:
  assumes parent: "CMakeMake_sanity_check_step env
             (sanity_custom_paths lt (get_shared_lib_ext env) self) self = (Inr (), self1)"
    and fake: "load_fake_module env = Inr d \<or> load_fake_module env = Inl (EasyBuildErr m)"
    and demo: "exit_code (shell env ''neurondemo'' (Some demo_input)) = 0"
      "re_search demo_regexp (cmd_output (shell env ''neurondemo'' (Some demo_input)))"
  shows
    "(mpi_tests env \<and> getcwd env = Inr cwd \<and>
      chdir env (os_path_join (start_dir (cfg self1)) [''src'', ''parallel'']) = None \<and>
      mpi_cmd_for env ''nrniv -mpi test0.hoc'' (parallel (cfg self1)) = Inr cmd \<and>
      chdir env cwd = None \<longrightarrow>
        (fst (EB_NEURON_sanity_check_step env lt self) =
           Some (EasyBuildError ''Validation of parallel hello world run failed.'')) =
        (exit_code (shell env cmd None) \<noteq> 0 \<or>
         (\<exists>i. 0 \<le> i \<and> i < parallel (cfg self1) \<and>
              \<not> sublist (''I am '' @ format_d i @ '' of '' @ format_d (parallel (cfg self1)))
                   (cmd_output (shell env cmd None)))) \<and>
        RunShellCmd cmd None \<in> set (snd (EB_NEURON_sanity_check_step env lt self))) \<and>
     (\<not> mpi_tests env \<longrightarrow>
        fst (EB_NEURON_sanity_check_step env lt self) \<noteq>
          Some (EasyBuildError ''Validation of parallel hello world run failed.'') \<and>
        snd (EB_NEURON_sanity_check_step env lt self) =
          RunShellCmd ''neurondemo'' (Some demo_input) #
          (if with_python self1
           then [RunShellCmd (''python -c '' @ [sq] @ ''import neuron; neuron.test()'' @ [sq])
                   None]
           else []))"
proof -
  let ?V = "EasyBuildError ''Validation of parallel hello world run failed.''"
  from sanity_check_step_reached [OF parent fake]
  obtain f where "EB_NEURON_sanity_check_step env lt self =
           and_then (neurondemo_test (shell env))
             (and_then (parallel_hello_test env self1)
                (and_then (python_test (shell env) self1) (cleanup env f)))"
    by blast
  with demo have R: "EB_NEURON_sanity_check_step env lt self =
      (fst (and_then (parallel_hello_test env self1)
                (and_then (python_test (shell env) self1) (cleanup env f))),
       RunShellCmd ''neurondemo'' (Some demo_input) #
       snd (and_then (parallel_hello_test env self1)
                (and_then (python_test (shell env) self1) (cleanup env f))))"
    by (simp add: neurondemo_test_eq)
  note later = python_cleanup_no_EasyBuildError
    [of "shell env" self1 env f "''Validation of parallel hello world run failed.''"]
  show ?thesis
  proof (intro conjI impI)
    assume a: "mpi_tests env \<and> getcwd env = Inr cwd \<and>
      chdir env (os_path_join (start_dir (cfg self1)) [''src'', ''parallel'']) = None \<and>
      mpi_cmd_for env ''nrniv -mpi test0.hoc'' (parallel (cfg self1)) = Inr cmd \<and>
      chdir env cwd = None"
    then have P: "parallel_hello_test env self1 =
     (if exit_code (shell env cmd None) \<noteq> 0 \<or>
         \<not> hello_ranks_valid 0 (parallel (cfg self1)) (cmd_output (shell env cmd None))
      then Some ?V else None,
      [Chdir (os_path_join (start_dir (cfg self1)) [''src'', ''parallel'']),
       RunShellCmd cmd None, Chdir cwd])"
      using parallel_hello_test_run [of env cwd self1 cmd] by blast
    show "(fst (EB_NEURON_sanity_check_step env lt self) = Some ?V) =
        (exit_code (shell env cmd None) \<noteq> 0 \<or>
         (\<exists>i. 0 \<le> i \<and> i < parallel (cfg self1) \<and>
              \<not> sublist (''I am '' @ format_d i @ '' of '' @ format_d (parallel (cfg self1)))
                   (cmd_output (shell env cmd None))))"
      unfolding R P hello_ranks_valid_iff using later
      by (auto split: if_splits)
    show "RunShellCmd cmd None \<in> set (snd (EB_NEURON_sanity_check_step env lt self))"
      unfolding R P by (simp split: if_splits)
  next
    assume "\<not> mpi_tests env"
    then have P: "parallel_hello_test env self1 = (None, [])"
      by (rule parallel_hello_test_skipped)
    show "fst (EB_NEURON_sanity_check_step env lt self) \<noteq> Some ?V"
      unfolding R P using later by simp
    show "snd (EB_NEURON_sanity_check_step env lt self) =
          RunShellCmd ''neurondemo'' (Some demo_input) #
          (if with_python self1
           then [RunShellCmd (''python -c '' @ [sq] @ ''import neuron; neuron.test()'' @ [sq])
                   None]
           else [])"
      unfolding R P by (simp add: python_cleanup_events python_test_events)
  qed
qed

theorem sanity_check_step_parallel_witness:
  "fst (EB_NEURON_sanity_check_step example_env (\<lambda>a b. False) example_neuron) \<noteq>
     Some (EasyBuildError ''Validation of parallel hello world run failed.'') \<and>
   RunShellCmd ''mpirun -np 2 nrniv -mpi test0.hoc'' None
     \<in> set (snd (EB_NEURON_sanity_check_step example_env (\<lambda>a b. False) example_neuron)) \<and>
   fst (EB_NEURON_sanity_check_step example_env (\<lambda>a b. False)
          (example_neuron\<lparr>cfg := (cfg example_neuron)\<lparr>parallel := 3\<rparr>\<rparr>)) =
     Some (EasyBuildError ''Validation of parallel hello world run failed.'') \<and>
   snd (EB_NEURON_sanity_check_step (example_env\<lparr>mpi_tests := False\<rparr>) (\<lambda>a b. False)
          example_neuron) = [RunShellCmd ''neurondemo'' (Some demo_input)]"
proof -
  let ?n3 = "example_neuron\<lparr>cfg := (cfg example_neuron)\<lparr>parallel := 3\<rparr>\<rparr>"
  let ?off = "example_env\<lparr>mpi_tests := False\<rparr>"
  let ?out = "''I am 1 of 2'' @ [nl] @ ''I am 0 of 2'' @ [nl]"
  have fd: "format_d 0 = ''0''" "format_d 1 = ''1''" "format_d 2 = ''2''" "format_d 3 = ''3''"
    by code_simp+
  have all2: "\<forall>i. 0 \<le> i \<and> i < 2 \<longrightarrow>
                sublist (''I am '' @ format_d i @ '' of '' @ format_d 2) ?out"
  proof (intro allI impI)
    fix i :: int assume "0 \<le> i \<and> i < 2"
    then have "i = 0 \<or> i = 1" by auto
    moreover have "sublist ''I am 0 of 2'' ?out"
      unfolding sublist_def by (rule exI [of _ "''I am 1 of 2'' @ [nl]"]) simp
    moreover have "sublist ''I am 1 of 2'' ?out"
      unfolding sublist_def by (rule exI [of _ "[]"]) simp
    ultimately show "sublist (''I am '' @ format_d i @ '' of '' @ format_d 2) ?out"
      using fd by auto
  qed
  have no3: "\<not> sublist (''I am '' @ format_d 0 @ '' of '' @ format_d 3) ?out"
    unfolding re_search_literal [symmetric] fd by code_simp
  have a: "fst (EB_NEURON_sanity_check_step example_env (\<lambda>a b. False) example_neuron) \<noteq>
       Some (EasyBuildError ''Validation of parallel hello world run failed.'') \<and>
     RunShellCmd ''mpirun -np 2 nrniv -mpi test0.hoc'' None
       \<in> set (snd (EB_NEURON_sanity_check_step example_env (\<lambda>a b. False) example_neuron))"
    using sanity_check_step_parallel
      [where env = example_env and lt = "\<lambda>a b. False" and self = example_neuron
         and ?self1.0 = example_neuron and d = "''fake module''" and cwd = "''/tmp''"
         and cmd = "''mpirun -np 2 nrniv -mpi test0.hoc''"]
      example_demo_matches all2 fd
    by simp
  have b: "fst (EB_NEURON_sanity_check_step example_env (\<lambda>a b. False) ?n3) =
       Some (EasyBuildError ''Validation of parallel hello world run failed.'')"
    using sanity_check_step_parallel
      [where env = example_env and lt = "\<lambda>a b. False" and self = ?n3
         and ?self1.0 = ?n3 and d = "''fake module''" and cwd = "''/tmp''"
         and cmd = "''mpirun -np 3 nrniv -mpi test0.hoc''"]
      example_demo_matches no3 fd
    by auto
  have c: "snd (EB_NEURON_sanity_check_step ?off (\<lambda>a b. False) example_neuron) =
       [RunShellCmd ''neurondemo'' (Some demo_input)]"
    using sanity_check_step_parallel
      [where env = ?off and lt = "\<lambda>a b. False" and self = example_neuron
         and ?self1.0 = example_neuron and d = "''fake module''"]
      example_demo_matches
    by simp
  from a b c show ?thesis by blast
qed

end
